theory Spec2Isabelle
  imports Complex_Main "HOL-Library.Char_ord" "HOL-Library.List_Lexorder"
    "HOL-Library.Product_Lexorder" "HOL-Library.Sublist"
begin

section \<open>Data model (entity\_extraction/models.py, data\_resolution/models.py)\<close>

text \<open>
  Python floats are modelled as reals, Python strings as \<open>string\<close> (ASCII), insertion-ordered
  dictionaries as association lists in insertion order.  Random uuid identifiers, timestamps and
  free-form metadata of the decision records are not modelled: no control flow reads them.
\<close>

datatype EntityType =
  KPI | TABLE | COLUMN | METRIC | DATA_SOURCE | DOMAIN | FORMULA | DEFINITION

datatype PredicateType =
  HAS_DEFINITION | CALCULATED_BY | BELONGS_TO | CONTAINS | HAS_TYPE
  | DEPENDS_ON | DERIVED_FROM | MEASURES | LOCATED_IN

record Entity =
  eid :: string
  etype :: EntityType
  ename :: string
  edescription :: "string option"
  econfidence :: real
  eattributes :: "(string \<times> string) list"
  esource_chunk_id :: "string option"

record Relationship =
  rid :: string
  subject_id :: string
  predicate :: PredicateType
  object_id :: string
  rconfidence :: real
  rcontext :: "string option"
  rsource_chunk_id :: "string option"

datatype ResolutionActionType =
  MERGE | KEEP_CANONICAL | MARK_DUPLICATE | CREATE_NEW_RELATIONSHIP | CONSOLIDATE_RELATIONSHIPS

record EntityResolutionDecision =
  canonical_entity_id :: string
  duplicate_entity_ids :: "string list"
  similarity_score :: real
  resolution_method :: string
  dconfidence :: real

record RelationshipResolutionDecision =
  action :: ResolutionActionType
  canonical_relationship_id :: string
  merged_relationship_ids :: "string list"
  consolidated_confidence :: real
  consolidation_method :: string

record ConnectionDiscovery =
  subject_entity_id :: string
  object_entity_id :: string
  suggested_predicate :: PredicateType
  cconfidence :: real
  discovery_method :: string

text \<open>
  The pydantic models reject a field outside its declared range (\<open>ge=0.0, le=1.0\<close>) by raising
  a validation error in the constructor; the constructors below return that error as a value.
\<close>

datatype error = ValidationError | ValueError | ZeroDivisionError | IndexError

definition in_unit :: "real \<Rightarrow> bool" where
  "in_unit x = (0 \<le> x \<and> x \<le> 1)"

definition mk_Relationship ::
  "string \<Rightarrow> string \<Rightarrow> PredicateType \<Rightarrow> string \<Rightarrow> real \<Rightarrow> string option \<Rightarrow> string option
    \<Rightarrow> error + Relationship" where
  "mk_Relationship i s p ob c ctx src =
     (if in_unit c
      then Inr \<lparr>rid = i, subject_id = s, predicate = p, object_id = ob, rconfidence = c,
                rcontext = ctx, rsource_chunk_id = src\<rparr>
      else Inl ValidationError)"

definition mk_EntityResolutionDecision ::
  "string \<Rightarrow> string list \<Rightarrow> real \<Rightarrow> string \<Rightarrow> real \<Rightarrow> error + EntityResolutionDecision" where
  "mk_EntityResolutionDecision c ds s m conf =
     (if in_unit s \<and> in_unit conf
      then Inr \<lparr>canonical_entity_id = c, duplicate_entity_ids = ds, similarity_score = s,
                resolution_method = m, dconfidence = conf\<rparr>
      else Inl ValidationError)"

definition mk_RelationshipResolutionDecision ::
  "ResolutionActionType \<Rightarrow> string \<Rightarrow> string list \<Rightarrow> real \<Rightarrow> string
    \<Rightarrow> error + RelationshipResolutionDecision" where
  "mk_RelationshipResolutionDecision a c ms conf m =
     (if in_unit conf
      then Inr \<lparr>action = a, canonical_relationship_id = c, merged_relationship_ids = ms,
                consolidated_confidence = conf, consolidation_method = m\<rparr>
      else Inl ValidationError)"

definition mk_ConnectionDiscovery ::
  "string \<Rightarrow> string \<Rightarrow> PredicateType \<Rightarrow> real \<Rightarrow> string \<Rightarrow> error + ConnectionDiscovery" where
  "mk_ConnectionDiscovery s ob p conf m =
     (if in_unit conf
      then Inr \<lparr>subject_entity_id = s, object_entity_id = ob, suggested_predicate = p,
                cconfidence = conf, discovery_method = m\<rparr>
      else Inl ValidationError)"

section \<open>Python building blocks\<close>

text \<open>A \<open>for\<close> loop that threads a state and stops at the first raised error.\<close>

fun for_each :: "('s \<Rightarrow> 'a \<Rightarrow> error + 's) \<Rightarrow> 'a list \<Rightarrow> 's \<Rightarrow> error + 's" where
  "for_each f [] s = Inr s"
| "for_each f (x # xs) s = (case f s x of Inl e \<Rightarrow> Inl e | Inr s' \<Rightarrow> for_each f xs s')"

text \<open>\<open>d[k] = v\<close> on an insertion-ordered dict, \<open>d[k].append(v)\<close> on a \<open>defaultdict(list)\<close>,
  \<open>del d[k]\<close>, and grouping a list by a key in first-occurrence order.\<close>

fun dict_set :: "'k \<Rightarrow> 'v \<Rightarrow> ('k \<times> 'v) list \<Rightarrow> ('k \<times> 'v) list" where
  "dict_set k v [] = [(k, v)]"
| "dict_set k v ((k', v') # d) = (if k' = k then (k, v) # d else (k', v') # dict_set k v d)"

fun dict_append :: "'k \<Rightarrow> 'v \<Rightarrow> ('k \<times> 'v list) list \<Rightarrow> ('k \<times> 'v list) list" where
  "dict_append k v [] = [(k, [v])]"
| "dict_append k v ((k', vs) # d) =
     (if k' = k then (k', vs @ [v]) # d else (k', vs) # dict_append k v d)"

definition dict_del :: "'k \<Rightarrow> ('k \<times> 'v) list \<Rightarrow> ('k \<times> 'v) list" where
  "dict_del k d = filter (\<lambda>kv. fst kv \<noteq> k) d"

definition dict_get :: "('k \<times> 'v) list \<Rightarrow> 'k \<Rightarrow> 'v \<Rightarrow> 'v" where
  "dict_get d k dflt = (case map_of d k of Some v \<Rightarrow> v | None \<Rightarrow> dflt)"

definition group_by :: "('a \<Rightarrow> 'k) \<Rightarrow> 'a list \<Rightarrow> ('k \<times> 'a list) list" where
  "group_by key xs = foldl (\<lambda>d x. dict_append (key x) x d) [] xs"

text \<open>\<open>max(xs, key=...)\<close> on a non-empty list: the first element with the greatest key.\<close>

definition py_max :: "('a \<Rightarrow> 'b::linorder) \<Rightarrow> 'a \<Rightarrow> 'a list \<Rightarrow> 'a" where
  "py_max key x xs = foldl (\<lambda>best y. if key best < key y then y else best) x xs"

subsection \<open>Strings\<close>

definition lower_char :: "char \<Rightarrow> char" where
  "lower_char c =
     (case map_of (zip ''ABCDEFGHIJKLMNOPQRSTUVWXYZ'' ''abcdefghijklmnopqrstuvwxyz'') c of
        Some d \<Rightarrow> d | None \<Rightarrow> c)"

definition upper_char :: "char \<Rightarrow> char" where
  "upper_char c =
     (case map_of (zip ''abcdefghijklmnopqrstuvwxyz'' ''ABCDEFGHIJKLMNOPQRSTUVWXYZ'') c of
        Some d \<Rightarrow> d | None \<Rightarrow> c)"

definition lower :: "string \<Rightarrow> string" where
  "lower s = map lower_char s"

definition upper :: "string \<Rightarrow> string" where
  "upper s = map upper_char s"

definition is_space :: "char \<Rightarrow> bool" where
  "is_space c = (let n = (of_char c :: nat) in (9 \<le> n \<and> n \<le> 13) \<or> (28 \<le> n \<and> n \<le> 32))"

definition is_punctuation :: "char \<Rightarrow> bool" where
  "is_punctuation c =
     (let n = (of_char c :: nat)
      in (33 \<le> n \<and> n \<le> 47) \<or> (58 \<le> n \<and> n \<le> 64) \<or> (91 \<le> n \<and> n \<le> 96)
          \<or> (123 \<le> n \<and> n \<le> 126))"

definition strip :: "string \<Rightarrow> string" where
  "strip s = rev (dropWhile is_space (rev (dropWhile is_space s)))"

text \<open>\<open>str.split()\<close>: maximal runs of non-whitespace characters.\<close>

fun split_acc :: "string \<Rightarrow> string \<Rightarrow> string list" where
  "split_acc w [] = (if w = [] then [] else [w])"
| "split_acc w (c # cs) =
     (if is_space c then (if w = [] then split_acc [] cs else w # split_acc [] cs)
      else split_acc (w @ [c]) cs)"

definition str_split :: "string \<Rightarrow> string list" where
  "str_split s = split_acc [] s"

definition join :: "string \<Rightarrow> string list \<Rightarrow> string" where
  "join sep ws = (case ws of [] \<Rightarrow> [] | w # rest \<Rightarrow> w @ concat (map (\<lambda>v. sep @ v) rest))"

subsection \<open>The rapidfuzz similarity functions\<close>

text \<open>
  \<open>fuzz.partial_ratio\<close> and \<open>fuzz.ratio\<close> belong to the rapidfuzz library, which is not part of
  the repository.  Every function that calls them takes them as a parameter \<open>fz\<close>.
\<close>

record fuzz =
  partial_ratio :: "string \<Rightarrow> string \<Rightarrow> real"
  ratio :: "string \<Rightarrow> string \<Rightarrow> real"

fun lcs :: "string \<Rightarrow> string \<Rightarrow> nat" where
  "lcs [] ys = 0"
| "lcs xs [] = 0"
| "lcs (x # xs) (y # ys) =
     (if x = y then Suc (lcs xs ys) else max (lcs xs (y # ys)) (lcs (x # xs) ys))"

text \<open>Modelled from the spec: rapidfuzz's \<open>ratio\<close>, the normalized edit (insert/delete)
  similarity \<open>100 * 2 * lcs / (|s| + |t|)\<close>, 100 on two empty strings.\<close>

definition edit_ratio :: "string \<Rightarrow> string \<Rightarrow> real" where
  "edit_ratio s t =
     (if s = [] \<and> t = [] then 100
      else 100 * (2 * real (lcs s t)) / real (length s + length t))"

text \<open>All contiguous substrings of length n of t (t itself when it is not longer than n).\<close>

fun windows :: "nat \<Rightarrow> string \<Rightarrow> string list" where
  "windows n [] = [[]]"
| "windows n (c # cs) = (if length cs < n then [c # cs] else take n (c # cs) # windows n cs)"

text \<open>Modelled from the spec: rapidfuzz's \<open>partial_ratio\<close>, which section 9 gives as: for
  strings s (shorter) and t, the maximum over all length-|s| substrings u of t of the
  normalized edit similarity of s and u.\<close>

definition spec_partial_ratio :: "string \<Rightarrow> string \<Rightarrow> real" where
  "spec_partial_ratio a b =
     (let s = (if length a \<le> length b then a else b);
          t = (if length a \<le> length b then b else a)
      in case map (edit_ratio s) (windows (length s) t) of
           [] \<Rightarrow> 0
         | r # rs \<Rightarrow> foldl max r rs)"

definition rapidfuzz :: fuzz where
  "rapidfuzz = \<lparr>partial_ratio = spec_partial_ratio, ratio = edit_ratio\<rparr>"

section \<open>Relationship resolver (data\_resolution/relationship\_resolver.py)\<close>

record RelationshipResolver =
  confidence_consolidation_method :: string
  rel_decisions :: "RelationshipResolutionDecision list"

definition update_relationship_entity_ids ::
  "Relationship list \<Rightarrow> (string \<times> string) list \<Rightarrow> Relationship list" where
  "update_relationship_entity_ids relationships entity_id_mapping =
     map (\<lambda>relationship.
        let new_subject_id = dict_get entity_id_mapping (subject_id relationship)
                               (subject_id relationship);
            new_object_id = dict_get entity_id_mapping (object_id relationship)
                               (object_id relationship)
        in if new_subject_id \<noteq> subject_id relationship \<or> new_object_id \<noteq> object_id relationship
           then \<lparr>rid = rid relationship, subject_id = new_subject_id,
                 predicate = predicate relationship, object_id = new_object_id,
                 rconfidence = rconfidence relationship, rcontext = rcontext relationship,
                 rsource_chunk_id = rsource_chunk_id relationship\<rparr>
           else relationship) relationships"

definition best_key :: "Relationship \<Rightarrow> real \<times> nat \<times> string" where
  "best_key r = (rconfidence r, length (case rcontext r of None \<Rightarrow> [] | Some c \<Rightarrow> c), rid r)"

definition select_best_relationship :: "Relationship list \<Rightarrow> error + Relationship" where
  "select_best_relationship relationships =
     (case relationships of
        [] \<Rightarrow> Inl ValueError
      | r # rest \<Rightarrow> Inr (py_max best_key r rest))"

definition remove_exact_duplicates_step ::
  "RelationshipResolver \<times> Relationship list \<Rightarrow> (string \<times> PredicateType \<times> string) \<times> Relationship list
    \<Rightarrow> error + RelationshipResolver \<times> Relationship list" where
  "remove_exact_duplicates_step st grp =
     (let self = fst st; deduplicated = snd st; group_relationships = snd grp
      in case group_relationships of
           [r] \<Rightarrow> Inr (self, deduplicated @ [r])
         | _ \<Rightarrow>
           (case select_best_relationship group_relationships of
              Inl e \<Rightarrow> Inl e
            | Inr best_relationship \<Rightarrow>
               (let duplicate_ids =
                      map rid (filter (\<lambda>r. rid r \<noteq> rid best_relationship) group_relationships)
                in if duplicate_ids \<noteq> []
                   then (case mk_RelationshipResolutionDecision KEEP_CANONICAL
                                 (rid best_relationship) duplicate_ids
                                 (rconfidence best_relationship) ''exact_duplicate_removal'' of
                           Inl e \<Rightarrow> Inl e
                         | Inr decision \<Rightarrow>
                             Inr (self\<lparr>rel_decisions := rel_decisions self @ [decision]\<rparr>,
                                  deduplicated @ [best_relationship]))
                   else Inr (self, deduplicated @ [best_relationship]))))"

definition remove_exact_duplicates ::
  "RelationshipResolver \<Rightarrow> Relationship list \<Rightarrow> error + RelationshipResolver \<times> Relationship list" where
  "remove_exact_duplicates self relationships =
     for_each remove_exact_duplicates_step
       (group_by (\<lambda>r. (subject_id r, predicate r, object_id r)) relationships) (self, [])"

definition consolidate_confidence_scores ::
  "RelationshipResolver \<Rightarrow> Relationship list \<Rightarrow> error + real" where
  "consolidate_confidence_scores self relationships =
     (case relationships of
        [r] \<Rightarrow> Inr (rconfidence r)
      | _ \<Rightarrow>
        (let confidences = map rconfidence relationships;
             n = real (length relationships)
         in if confidence_consolidation_method self = ''max''
            then (case confidences of [] \<Rightarrow> Inl ValueError | c # cs \<Rightarrow> Inr (foldl max c cs))
            else if confidence_consolidation_method self = ''average''
            then (if confidences = [] then Inl ZeroDivisionError
                  else Inr (sum_list confidences / n))
            else if confidence_consolidation_method self = ''weighted''
            then (let weights =
                        map (\<lambda>r. max 1 (length (case rcontext r of None \<Rightarrow> [] | Some c \<Rightarrow> c)))
                          relationships;
                      total_weight = sum_list weights;
                      weighted_sum =
                        sum_list (map (\<lambda>cw. fst cw * real (snd cw)) (zip confidences weights))
                  in if total_weight > 0 then Inr (weighted_sum / real total_weight)
                     else if confidences = [] then Inl ZeroDivisionError
                     else Inr (sum_list confidences / n))
            else (case confidences of [] \<Rightarrow> Inl ValueError | c # cs \<Rightarrow> Inr (foldl max c cs))))"

definition unique_contexts :: "string list \<Rightarrow> string list" where
  "unique_contexts contexts =
     fst (foldl (\<lambda>acc ctx.
            let context_lower = strip (lower ctx)
            in if context_lower \<notin> set (snd acc)
               then (fst acc @ [strip ctx], snd acc @ [context_lower])
               else acc) ([], []) contexts)"

definition merge_contexts :: "Relationship list \<Rightarrow> string option" where
  "merge_contexts relationships =
     (let contexts =
            concat (map (\<lambda>r. case rcontext r of
                                None \<Rightarrow> []
                              | Some c \<Rightarrow> (if c \<noteq> [] \<and> strip c \<noteq> [] then [c] else []))
                        relationships)
      in case contexts of
           [] \<Rightarrow> None
         | [c] \<Rightarrow> Some c
         | _ \<Rightarrow>
           (let uniq = unique_contexts contexts
            in if length uniq > 1 then Some (join '' | '' uniq)
               else (case uniq of [] \<Rightarrow> None | u # _ \<Rightarrow> Some u)))"

definition consolidate_predicate_group ::
  "RelationshipResolver \<Rightarrow> Relationship list \<Rightarrow> error + RelationshipResolver \<times> Relationship" where
  "consolidate_predicate_group self relationships =
     (case relationships of
        [r] \<Rightarrow> Inr (self, r)
      | _ \<Rightarrow>
        (case select_best_relationship relationships of
           Inl e \<Rightarrow> Inl e
         | Inr base_relationship \<Rightarrow>
           (case consolidate_confidence_scores self relationships of
              Inl e \<Rightarrow> Inl e
            | Inr consolidated_conf \<Rightarrow>
              (let consolidated_context = merge_contexts relationships
               in case mk_Relationship (rid base_relationship) (subject_id base_relationship)
                         (predicate base_relationship) (object_id base_relationship)
                         consolidated_conf consolidated_context
                         (rsource_chunk_id base_relationship) of
                    Inl e \<Rightarrow> Inl e
                  | Inr consolidated_relationship \<Rightarrow>
                    (let merged_ids =
                           map rid (filter (\<lambda>r. rid r \<noteq> rid base_relationship) relationships)
                     in if merged_ids \<noteq> []
                        then (case mk_RelationshipResolutionDecision CONSOLIDATE_RELATIONSHIPS
                                      (rid base_relationship) merged_ids consolidated_conf
                                      (''predicate_group_'' @ confidence_consolidation_method self) of
                                Inl e \<Rightarrow> Inl e
                              | Inr decision \<Rightarrow>
                                  Inr (self\<lparr>rel_decisions := rel_decisions self @ [decision]\<rparr>,
                                       consolidated_relationship))
                        else Inr (self, consolidated_relationship))))))"

definition consolidate_relationship_group_step ::
  "RelationshipResolver \<times> Relationship list \<Rightarrow> PredicateType \<times> Relationship list
    \<Rightarrow> error + RelationshipResolver \<times> Relationship list" where
  "consolidate_relationship_group_step st grp =
     (case snd grp of
        [r] \<Rightarrow> Inr (fst st, snd st @ [r])
      | predicate_relationships \<Rightarrow>
        (case consolidate_predicate_group (fst st) predicate_relationships of
           Inl e \<Rightarrow> Inl e
         | Inr res \<Rightarrow> Inr (fst res, snd st @ [snd res])))"

definition consolidate_relationship_group ::
  "RelationshipResolver \<Rightarrow> Relationship list \<Rightarrow> error + RelationshipResolver \<times> Relationship list" where
  "consolidate_relationship_group self relationships =
     (if length relationships \<le> 1 then Inr (self, relationships)
      else for_each consolidate_relationship_group_step (group_by predicate relationships)
             (self, []))"

definition consolidate_similar_step ::
  "RelationshipResolver \<times> Relationship list \<Rightarrow> (string \<times> string) \<times> Relationship list
    \<Rightarrow> error + RelationshipResolver \<times> Relationship list" where
  "consolidate_similar_step st grp =
     (case snd grp of
        [r] \<Rightarrow> Inr (fst st, snd st @ [r])
      | group_relationships \<Rightarrow>
        (case consolidate_relationship_group (fst st) group_relationships of
           Inl e \<Rightarrow> Inl e
         | Inr res \<Rightarrow> Inr (fst res, snd st @ snd res)))"

definition pair_key :: "Relationship \<Rightarrow> string \<times> string" where
  "pair_key r = (min (subject_id r) (object_id r), max (subject_id r) (object_id r))"

definition consolidate_similar_relationships ::
  "RelationshipResolver \<Rightarrow> Relationship list \<Rightarrow> error + RelationshipResolver \<times> Relationship list" where
  "consolidate_similar_relationships self relationships =
     for_each consolidate_similar_step (group_by pair_key relationships) (self, [])"

definition resolve_relationships ::
  "RelationshipResolver \<Rightarrow> Relationship list \<Rightarrow> (string \<times> string) list
    \<Rightarrow> error + Relationship list \<times> RelationshipResolutionDecision list" where
  "resolve_relationships self0 relationships entity_id_mapping =
     (let self = self0\<lparr>rel_decisions := []\<rparr>;
          updated_relationships =
            (if entity_id_mapping \<noteq> []
             then update_relationship_entity_ids relationships entity_id_mapping
             else relationships)
      in case remove_exact_duplicates self updated_relationships of
           Inl e \<Rightarrow> Inl e
         | Inr dd \<Rightarrow>
           (case consolidate_similar_relationships (fst dd) (snd dd) of
              Inl e \<Rightarrow> Inl e
            | Inr cc \<Rightarrow> Inr (snd cc, rel_decisions (fst cc))))"

section \<open>Entity resolver (data\_resolution/entity\_resolver.py)\<close>

record EntityResolver =
  similarity_threshold :: real
  acronym_threshold :: real
  enable_acronym_matching :: bool
  canonical_entities :: "(string \<times> Entity) list"
  resolution_decisions :: "EntityResolutionDecision list"

definition clean_entity_name :: "string \<Rightarrow> string" where
  "clean_entity_name name = filter (\<lambda>c. \<not> is_punctuation c) (strip (lower name))"

definition name_similarity :: "fuzz \<Rightarrow> string \<Rightarrow> string \<Rightarrow> real" where
  "name_similarity fz a b = partial_ratio fz (clean_entity_name a) (clean_entity_name b)"

definition fuzzy_cluster_step ::
  "fuzz \<Rightarrow> EntityResolver \<Rightarrow> (string \<times> Entity list) list \<Rightarrow> string list
    \<Rightarrow> (string \<times> Entity list) list \<times> string set \<Rightarrow> string
    \<Rightarrow> (string \<times> Entity list) list \<times> string set" where
  "fuzzy_cluster_step fz self name_to_entities unique_names st name =
     (let clustered = fst st; used_names = snd st
      in if name \<in> used_names then st
         else
           (let cluster_used_names =
                  filter (\<lambda>other_name. other_name \<notin> used_names
                            \<and> name_similarity fz name other_name \<ge> similarity_threshold self)
                    unique_names;
                cluster_entities =
                  concat (map (\<lambda>other_name. dict_get name_to_entities other_name [])
                    cluster_used_names)
            in if cluster_entities \<noteq> []
               then (dict_set name cluster_entities clustered,
                     used_names \<union> set cluster_used_names)
               else st))"

definition group_entities_by_fuzzy_match ::
  "fuzz \<Rightarrow> EntityResolver \<Rightarrow> Entity list \<Rightarrow> (string \<times> Entity list) list" where
  "group_entities_by_fuzzy_match fz self entities =
     (let name_to_entities = group_by ename entities;
          unique_names = map fst name_to_entities
      in fst (foldl (fuzzy_cluster_step fz self name_to_entities unique_names) ([], {})
                unique_names))"

definition similarity_scores :: "fuzz \<Rightarrow> Entity list \<Rightarrow> real list" where
  "similarity_scores fz entities =
     (let n = length entities
      in map (\<lambda>i. sum_list (map (\<lambda>j. name_similarity fz (ename (entities ! i))
                                        (ename (entities ! j)))
                             (filter (\<lambda>j. i \<noteq> j) [0 ..< n])))
           [0 ..< n])"

definition select_medoid_entity :: "fuzz \<Rightarrow> Entity list \<Rightarrow> Entity option" where
  "select_medoid_entity fz entities =
     (case entities of
        [] \<Rightarrow> None
      | [e] \<Rightarrow> Some e
      | _ \<Rightarrow>
        (let n = length entities;
             scores = similarity_scores fz entities;
             max_idx = py_max (\<lambda>idx. scores ! idx) 0 [1 ..< n];
             medoid = entities ! max_idx;
             max_score = scores ! max_idx;
             candidates =
               map (\<lambda>i. entities ! i)
                 (filter (\<lambda>i. \<bar>scores ! i - max_score\<bar> < 10) [0 ..< n])
         in case candidates of
              c # c' # rest \<Rightarrow> Some (py_max econfidence c (c' # rest))
            | _ \<Rightarrow> Some medoid))"

definition find_matching_canonical_entity ::
  "fuzz \<Rightarrow> EntityResolver \<Rightarrow> Entity \<Rightarrow> Entity option" where
  "find_matching_canonical_entity fz self entity =
     snd (foldl (\<lambda>best canonical.
            if etype canonical \<noteq> etype entity then best
            else
              (let score = name_similarity fz (ename entity) (ename canonical)
               in if score > fst best \<and> score \<ge> similarity_threshold self
                  then (score, Some canonical) else best))
          (0, None) (map snd (canonical_entities self)))"

fun pair_similarities :: "fuzz \<Rightarrow> Entity list \<Rightarrow> real list" where
  "pair_similarities fz [] = []"
| "pair_similarities fz (e # es) =
     map (\<lambda>e'. name_similarity fz (ename e) (ename e')) es @ pair_similarities fz es"

definition calculate_cluster_similarity :: "fuzz \<Rightarrow> Entity list \<Rightarrow> real" where
  "calculate_cluster_similarity fz entities =
     (if length entities < 2 then 1
      else
        (let sims = pair_similarities fz entities;
             total_similarity = sum_list sims;
             comparisons = length sims
         in if comparisons > 0 then (total_similarity / real comparisons) / 100 else 1))"

definition calculate_resolution_confidence :: "fuzz \<Rightarrow> Entity list \<Rightarrow> real" where
  "calculate_resolution_confidence fz entities =
     (if length entities < 2 then 1
      else
        (let avg_entity_confidence =
               sum_list (map econfidence entities) / real (length entities);
             cluster_similarity = calculate_cluster_similarity fz entities;
             confidence = (avg_entity_confidence + cluster_similarity) / 2
         in if cluster_similarity > 0.9 then min 1 (confidence + 0.1) else confidence))"

definition resolve_entity_cluster ::
  "fuzz \<Rightarrow> EntityResolver \<Rightarrow> Entity list \<Rightarrow> error + EntityResolver" where
  "resolve_entity_cluster fz self cluster_entities =
     (if cluster_entities = [] then Inr self
      else
        (case select_medoid_entity fz cluster_entities of
           None \<Rightarrow> Inr self
         | Some canonical_entity \<Rightarrow>
           (let existing_match = find_matching_canonical_entity fz self canonical_entity;
                final_canonical_id =
                  (case existing_match of Some m \<Rightarrow> eid m | None \<Rightarrow> eid canonical_entity);
                self' =
                  (case existing_match of
                     Some m \<Rightarrow> self
                   | None \<Rightarrow>
                       self\<lparr>canonical_entities :=
                              dict_set (eid canonical_entity) canonical_entity
                                (canonical_entities self)\<rparr>);
                duplicate_ids =
                  (case existing_match of
                     Some m \<Rightarrow> map eid cluster_entities
                   | None \<Rightarrow>
                       filter (\<lambda>i. i \<noteq> eid canonical_entity) (map eid cluster_entities))
            in if duplicate_ids \<noteq> []
               then (case mk_EntityResolutionDecision final_canonical_id duplicate_ids
                             (calculate_cluster_similarity fz cluster_entities)
                             ''fuzzy_match_medoid''
                             (calculate_resolution_confidence fz cluster_entities) of
                       Inl e \<Rightarrow> Inl e
                     | Inr decision \<Rightarrow>
                         Inr (self'\<lparr>resolution_decisions :=
                                     resolution_decisions self' @ [decision]\<rparr>))
               else Inr self')))"

definition resolve_cluster_step ::
  "fuzz \<Rightarrow> EntityResolver \<Rightarrow> string \<times> Entity list \<Rightarrow> error + EntityResolver" where
  "resolve_cluster_step fz self cl =
     (case snd cl of
        [] \<Rightarrow> Inr self
      | [entity] \<Rightarrow>
          Inr (self\<lparr>canonical_entities := dict_set (eid entity) entity (canonical_entities self)\<rparr>)
      | cluster_entities \<Rightarrow> resolve_entity_cluster fz self cluster_entities)"

definition resolve_entities_by_type ::
  "fuzz \<Rightarrow> EntityResolver \<Rightarrow> Entity list \<Rightarrow> error + EntityResolver" where
  "resolve_entities_by_type fz self entities =
     (if entities = [] then Inr self
      else for_each (resolve_cluster_step fz)
             (group_entities_by_fuzzy_match fz self entities) self)"

definition acronym_of :: "string \<Rightarrow> string" where
  "acronym_of name =
     concat (map (\<lambda>word. case word of [] \<Rightarrow> [] | c # _ \<Rightarrow> [upper_char c]) (str_split name))"

definition merge_acronym_step ::
  "fuzz \<Rightarrow> Entity list \<Rightarrow> EntityResolver \<times> string list \<Rightarrow> Entity
    \<Rightarrow> error + EntityResolver \<times> string list" where
  "merge_acronym_step fz single_word_entities st multi_word_entity =
     (let self = fst st; entities_to_remove = snd st;
          acronym = acronym_of (ename multi_word_entity)
      in case find (\<lambda>single_word_entity.
                      etype single_word_entity = etype multi_word_entity
                      \<and> ratio fz acronym (upper (ename single_word_entity))
                          \<ge> acronym_threshold self)
                single_word_entities of
           None \<Rightarrow> Inr st
         | Some single_word_entity \<Rightarrow>
           (case mk_EntityResolutionDecision (eid multi_word_entity) [eid single_word_entity]
                   (ratio fz acronym (upper (ename single_word_entity)) / 100)
                   ''acronym_match'' 0.9 of
              Inl e \<Rightarrow> Inl e
            | Inr decision \<Rightarrow>
                Inr (self\<lparr>resolution_decisions := resolution_decisions self @ [decision]\<rparr>,
                     entities_to_remove @ [eid single_word_entity])))"

definition merge_acronym_entities :: "fuzz \<Rightarrow> EntityResolver \<Rightarrow> error + EntityResolver" where
  "merge_acronym_entities fz self =
     (if \<not> enable_acronym_matching self then Inr self
      else
        (let canonical_list = map snd (canonical_entities self);
             multi_word_entities = filter (\<lambda>e. CHR '' '' \<in> set (ename e)) canonical_list;
             single_word_entities = filter (\<lambda>e. CHR '' '' \<notin> set (ename e)) canonical_list
         in case for_each (merge_acronym_step fz single_word_entities) multi_word_entities
                   (self, []) of
              Inl e \<Rightarrow> Inl e
            | Inr res \<Rightarrow>
                Inr (foldl (\<lambda>s entity_id.
                        if entity_id \<in> set (map fst (canonical_entities s))
                        then s\<lparr>canonical_entities := dict_del entity_id (canonical_entities s)\<rparr>
                        else s)
                      (fst res) (snd res))))"

definition resolve_entities ::
  "fuzz \<Rightarrow> EntityResolver \<Rightarrow> Entity list
    \<Rightarrow> error + Entity list \<times> EntityResolutionDecision list" where
  "resolve_entities fz self0 entities =
     (let self = self0\<lparr>canonical_entities := [], resolution_decisions := []\<rparr>;
          type_groups = group_by etype entities
      in case for_each (\<lambda>s grp. resolve_entities_by_type fz s (snd grp)) type_groups self of
           Inl e \<Rightarrow> Inl e
         | Inr self1 \<Rightarrow>
           (case (if enable_acronym_matching self1 then merge_acronym_entities fz self1
                  else Inr self1) of
              Inl e \<Rightarrow> Inl e
            | Inr self2 \<Rightarrow>
                Inr (map snd (canonical_entities self2), resolution_decisions self2)))"

section \<open>Connection discoverer (data\_resolution/connection\_discoverer.py)\<close>

text \<open>
  The evidence strings, feature dictionaries and metadata of a discovery, and the connectivity
  cache that is built but never read, are not modelled.
\<close>

record ConnectionDiscoverer =
  cd_similarity_threshold :: real
  description_weight :: real
  name_weight :: real
  enable_transitive_discovery :: bool
  enable_domain_rules :: bool
  relationship_patterns :: "((EntityType \<times> EntityType) \<times> PredicateType list) list"

definition entity_map_of :: "Entity list \<Rightarrow> (string \<times> Entity) list" where
  "entity_map_of entities = foldl (\<lambda>m e. dict_set (eid e) e m) [] entities"

text \<open>\<open>Counter(xs).most_common(n)\<close>: counts in first-occurrence order, the n largest, ties in
  first-occurrence order.\<close>

definition most_common :: "nat \<Rightarrow> 'a list \<Rightarrow> 'a list" where
  "most_common n xs =
     map fst (take n (sort_key (\<lambda>kc. - int (length (snd kc))) (group_by (\<lambda>x. x) xs)))"

definition extract_relationship_patterns ::
  "Relationship list \<Rightarrow> Entity list \<Rightarrow> ((EntityType \<times> EntityType) \<times> PredicateType list) list" where
  "extract_relationship_patterns relationships entities =
     (let entity_map = entity_map_of entities;
          pattern_counter =
            foldl (\<lambda>pc rel.
                     case (map_of entity_map (subject_id rel), map_of entity_map (object_id rel)) of
                       (Some subject_entity, Some object_entity) \<Rightarrow>
                         dict_append (etype subject_entity, etype object_entity) (predicate rel) pc
                     | _ \<Rightarrow> pc)
              [] relationships
      in foldl (\<lambda>pats tp. dict_set (fst tp) (most_common 3 (snd tp)) pats) [] pattern_counter)"

definition get_existing_entity_pairs :: "Relationship list \<Rightarrow> (string \<times> string) set" where
  "get_existing_entity_pairs relationships =
     set (concat (map (\<lambda>rel. [(subject_id rel, object_id rel), (object_id rel, subject_id rel)])
                    relationships))"

definition entities_connected :: "string \<Rightarrow> string \<Rightarrow> (string \<times> string) set \<Rightarrow> bool" where
  "entities_connected entity1_id entity2_id existing_pairs =
     ((entity1_id, entity2_id) \<in> existing_pairs)"

definition calculate_attribute_similarity ::
  "fuzz \<Rightarrow> (string \<times> string) list \<Rightarrow> (string \<times> string) list \<Rightarrow> real" where
  "calculate_attribute_similarity fz attrs1 attrs2 =
     (if attrs1 = [] \<or> attrs2 = [] then 0
      else
        (let common_keys = filter (\<lambda>k. k \<in> set (map fst attrs2)) (map fst attrs1)
         in if common_keys = [] then 0
            else
              sum_list (map (\<lambda>key.
                  let val1 = lower (dict_get attrs1 key []);
                      val2 = lower (dict_get attrs2 key [])
                  in if val1 = val2 then 1 else ratio fz val1 val2 / 100) common_keys)
              / real (length common_keys)))"

definition calculate_entity_similarity ::
  "fuzz \<Rightarrow> ConnectionDiscoverer \<Rightarrow> Entity \<Rightarrow> Entity \<Rightarrow> real" where
  "calculate_entity_similarity fz self entity1 entity2 =
     (let name_sim = partial_ratio fz (lower (ename entity1)) (lower (ename entity2)) / 100;
          desc_sim =
            (case (edescription entity1, edescription entity2) of
               (Some d1, Some d2) \<Rightarrow>
                 (if d1 \<noteq> [] \<and> d2 \<noteq> [] then partial_ratio fz (lower d1) (lower d2) / 100 else 0)
             | _ \<Rightarrow> 0);
          attr_sim = calculate_attribute_similarity fz (eattributes entity1) (eattributes entity2);
          type_boost = (if etype entity1 = etype entity2 then 1 else 0.8)
      in (name_sim * name_weight self + desc_sim * description_weight self + attr_sim * 0.2)
           * type_boost)"

definition suggest_predicate_from_similarity ::
  "ConnectionDiscoverer \<Rightarrow> Entity \<Rightarrow> Entity \<Rightarrow> error + PredicateType" where
  "suggest_predicate_from_similarity self entity1 entity2 =
     (let type_pair = (etype entity1, etype entity2)
      in case map_of (relationship_patterns self) type_pair of
           Some [] \<Rightarrow> Inl IndexError
         | Some (p # _) \<Rightarrow> Inr p
         | None \<Rightarrow>
            Inr (if type_pair = (KPI, METRIC) then DEPENDS_ON
                 else if type_pair = (METRIC, FORMULA) then CALCULATED_BY
                 else if type_pair = (METRIC, TABLE) then DERIVED_FROM
                 else if type_pair = (COLUMN, TABLE) then BELONGS_TO
                 else if type_pair = (DEFINITION, KPI) then HAS_DEFINITION
                 else DEPENDS_ON))"

fun pairs_after :: "'a list \<Rightarrow> ('a \<times> 'a) list" where
  "pairs_after [] = []"
| "pairs_after (x # xs) = map (\<lambda>y. (x, y)) xs @ pairs_after xs"

definition discover_by_similarity ::
  "fuzz \<Rightarrow> ConnectionDiscoverer \<Rightarrow> Entity list \<Rightarrow> Relationship list
    \<Rightarrow> error + ConnectionDiscovery list" where
  "discover_by_similarity fz self entities existing_relationships =
     (let existing_pairs = get_existing_entity_pairs existing_relationships
      in for_each (\<lambda>discoveries pr.
            let entity1 = fst pr; entity2 = snd pr
            in if entities_connected (eid entity1) (eid entity2) existing_pairs
               then Inr discoveries
               else
                 (let similarity_score = calculate_entity_similarity fz self entity1 entity2
                  in if similarity_score \<ge> cd_similarity_threshold self
                     then (case suggest_predicate_from_similarity self entity1 entity2 of
                             Inl e \<Rightarrow> Inl e
                           | Inr suggested \<Rightarrow>
                             (case mk_ConnectionDiscovery (eid entity1) (eid entity2) suggested
                                     similarity_score ''similarity_analysis'' of
                                Inl e \<Rightarrow> Inl e
                              | Inr discovery \<Rightarrow> Inr (discoveries @ [discovery])))
                     else Inr discoveries))
           (pairs_after entities) [])"

definition infer_transitive_predicate :: "PredicateType \<Rightarrow> PredicateType \<Rightarrow> PredicateType option" where
  "infer_transitive_predicate pred1 pred2 =
     map_of [((BELONGS_TO, BELONGS_TO), BELONGS_TO),
             ((DEPENDS_ON, DEPENDS_ON), DEPENDS_ON),
             ((DERIVED_FROM, DERIVED_FROM), DERIVED_FROM),
             ((CONTAINS, BELONGS_TO), CONTAINS),
             ((HAS_DEFINITION, DEPENDS_ON), HAS_DEFINITION)] (pred1, pred2)"

definition types_compatible_for_transitivity :: "EntityType \<Rightarrow> EntityType \<Rightarrow> bool" where
  "types_compatible_for_transitivity type1 type2 =
     (let compatible_pairs = {(KPI, METRIC), (METRIC, TABLE), (COLUMN, TABLE), (FORMULA, KPI)}
      in (type1, type2) \<in> compatible_pairs \<or> (type2, type1) \<in> compatible_pairs)"

definition calculate_transitive_confidence ::
  "Entity \<Rightarrow> Entity \<Rightarrow> Entity \<Rightarrow> Relationship list \<Rightarrow> real" where
  "calculate_transitive_confidence entity1 intermediate entity2 relationships =
     (let confs =
            foldl (\<lambda>cs rel.
                     if subject_id rel = eid entity1 \<and> object_id rel = eid intermediate
                     then (max (fst cs) (rconfidence rel), snd cs)
                     else if subject_id rel = eid intermediate \<and> object_id rel = eid entity2
                     then (fst cs, max (snd cs) (rconfidence rel))
                     else cs)
              (0, 0) relationships;
          base_confidence = sqrt (fst confs * snd confs) * 0.8;
          boosted =
            (if types_compatible_for_transitivity (etype entity1) (etype entity2)
             then base_confidence * 1.1 else base_confidence)
      in min 1 boosted)"

definition discover_transitive_relationships ::
  "ConnectionDiscoverer \<Rightarrow> Entity list \<Rightarrow> Relationship list \<Rightarrow> error + ConnectionDiscovery list" where
  "discover_transitive_relationships self entities existing_relationships =
     (let entity_map = entity_map_of entities;
          existing_pairs = get_existing_entity_pairs existing_relationships;
          outgoing_relations =
            foldl (\<lambda>d rel. dict_append (subject_id rel) (object_id rel, predicate rel) d)
              [] existing_relationships;
          paths =
            concat (map (\<lambda>entity1.
              concat (map (\<lambda>hop1.
                map (\<lambda>hop2. (entity1, hop1, hop2)) (dict_get outgoing_relations (fst hop1) []))
                (dict_get outgoing_relations (eid entity1) []))) entities)
      in for_each (\<lambda>discoveries path.
            let entity1 = fst path; intermediate_id = fst (fst (snd path));
                pred1 = snd (fst (snd path)); target_id = fst (snd (snd path));
                pred2 = snd (snd (snd path))
            in if target_id = eid entity1 then Inr discoveries
               else if entities_connected (eid entity1) target_id existing_pairs
               then Inr discoveries
               else
                 (case (map_of entity_map target_id, map_of entity_map intermediate_id) of
                    (Some target_entity, Some intermediate_entity) \<Rightarrow>
                      (case infer_transitive_predicate pred1 pred2 of
                         None \<Rightarrow> Inr discoveries
                       | Some transitive_predicate \<Rightarrow>
                         (case mk_ConnectionDiscovery (eid entity1) target_id transitive_predicate
                                 (calculate_transitive_confidence entity1 intermediate_entity
                                    target_entity existing_relationships)
                                 ''transitive_inference'' of
                            Inl e \<Rightarrow> Inl e
                          | Inr discovery \<Rightarrow> Inr (discoveries @ [discovery])))
                  | _ \<Rightarrow> Inr discoveries))
           paths [])"

text \<open>The four \<open>_apply_*_rules\<close> methods share one loop; they differ in the threshold factor,
  the confidence formula, the predicate, the method tag and, for the formula rule, in which
  entity of the pair becomes the subject.\<close>

definition apply_rule ::
  "fuzz \<Rightarrow> ConnectionDiscoverer \<Rightarrow> real \<Rightarrow> (real \<Rightarrow> real) \<Rightarrow> PredicateType \<Rightarrow> string \<Rightarrow> bool
    \<Rightarrow> Entity list \<Rightarrow> Entity list \<Rightarrow> (string \<times> string) set \<Rightarrow> error + ConnectionDiscovery list" where
  "apply_rule fz self factor conf_of pred method swap firsts seconds existing_pairs =
     for_each (\<lambda>discoveries pr.
        let a = fst pr; b = snd pr
        in if entities_connected (eid a) (eid b) existing_pairs then Inr discoveries
           else
             (let similarity = calculate_entity_similarity fz self a b
              in if similarity \<ge> cd_similarity_threshold self * factor
                 then (case mk_ConnectionDiscovery (if swap then eid b else eid a)
                               (if swap then eid a else eid b) pred (conf_of similarity) method of
                         Inl e \<Rightarrow> Inl e
                       | Inr discovery \<Rightarrow> Inr (discoveries @ [discovery]))
                 else Inr discoveries))
       (concat (map (\<lambda>a. map (\<lambda>b. (a, b)) seconds) firsts)) []"

definition apply_kpi_metric_rules ::
  "fuzz \<Rightarrow> ConnectionDiscoverer \<Rightarrow> Entity list \<Rightarrow> Entity list \<Rightarrow> (string \<times> string) set
    \<Rightarrow> error + ConnectionDiscovery list" where
  "apply_kpi_metric_rules fz self kpi_entities metric_entities existing_pairs =
     apply_rule fz self 0.7 (\<lambda>similarity. min 0.9 (similarity * 1.1)) DEPENDS_ON
       ''domain_rule_kpi_metric'' False kpi_entities metric_entities existing_pairs"

definition apply_metric_table_rules ::
  "fuzz \<Rightarrow> ConnectionDiscoverer \<Rightarrow> Entity list \<Rightarrow> Entity list \<Rightarrow> (string \<times> string) set
    \<Rightarrow> error + ConnectionDiscovery list" where
  "apply_metric_table_rules fz self metric_entities table_entities existing_pairs =
     apply_rule fz self 0.6 (\<lambda>similarity. min 0.85 (similarity * 1.0)) DERIVED_FROM
       ''domain_rule_metric_table'' False metric_entities table_entities existing_pairs"

definition apply_metric_column_rules ::
  "fuzz \<Rightarrow> ConnectionDiscoverer \<Rightarrow> Entity list \<Rightarrow> Entity list \<Rightarrow> (string \<times> string) set
    \<Rightarrow> error + ConnectionDiscovery list" where
  "apply_metric_column_rules fz self metric_entities column_entities existing_pairs =
     apply_rule fz self 0.7 (\<lambda>similarity. min 0.8 (similarity * 1.0)) MEASURES
       ''domain_rule_metric_column'' False metric_entities column_entities existing_pairs"

definition apply_formula_rules ::
  "fuzz \<Rightarrow> ConnectionDiscoverer \<Rightarrow> Entity list \<Rightarrow> Entity list \<Rightarrow> (string \<times> string) set
    \<Rightarrow> error + ConnectionDiscovery list" where
  "apply_formula_rules fz self formula_entities target_entities existing_pairs =
     apply_rule fz self 0.6 (\<lambda>similarity. min 0.8 (similarity * 1.0)) CALCULATED_BY
       ''domain_rule_formula'' True formula_entities target_entities existing_pairs"

definition extend_with :: "'a list \<Rightarrow> error + 'a list \<Rightarrow> error + 'a list" where
  "extend_with discoveries found = (case found of Inl e \<Rightarrow> Inl e | Inr ds \<Rightarrow> Inr (discoveries @ ds))"

definition discover_by_domain_rules ::
  "fuzz \<Rightarrow> ConnectionDiscoverer \<Rightarrow> Entity list \<Rightarrow> Relationship list
    \<Rightarrow> error + ConnectionDiscovery list" where
  "discover_by_domain_rules fz self entities existing_relationships =
     (let existing_pairs = get_existing_entity_pairs existing_relationships;
          entities_by_type = group_by etype entities;
          has = (\<lambda>t. t \<in> set (map fst entities_by_type));
          of_type = (\<lambda>t. dict_get entities_by_type t [])
      in case (if has KPI \<and> has METRIC
               then extend_with [] (apply_kpi_metric_rules fz self (of_type KPI) (of_type METRIC)
                                 existing_pairs)
               else Inr []) of
           Inl e \<Rightarrow> Inl e
         | Inr d1 \<Rightarrow>
           (case (if has METRIC \<and> of_type TABLE \<noteq> []
                  then extend_with d1 (apply_metric_table_rules fz self (of_type METRIC) (of_type TABLE)
                                    existing_pairs)
                  else Inr d1) of
              Inl e \<Rightarrow> Inl e
            | Inr d2 \<Rightarrow>
              (case (if has METRIC \<and> of_type COLUMN \<noteq> []
                     then extend_with d2 (apply_metric_column_rules fz self (of_type METRIC)
                                       (of_type COLUMN) existing_pairs)
                     else Inr d2) of
                 Inl e \<Rightarrow> Inl e
               | Inr d3 \<Rightarrow>
                 (if has FORMULA
                  then for_each (\<lambda>discoveries target_type.
                         if has target_type
                         then extend_with discoveries
                                (apply_formula_rules fz self (of_type FORMULA)
                                   (of_type target_type) existing_pairs)
                         else Inr discoveries)
                       [KPI, METRIC] d3
                  else Inr d3))))"

definition calculate_pattern_confidence ::
  "fuzz \<Rightarrow> ConnectionDiscoverer \<Rightarrow> Entity \<Rightarrow> Entity \<Rightarrow> PredicateType list \<Rightarrow> real" where
  "calculate_pattern_confidence fz self entity1 entity2 common_predicates =
     (let pattern_strength = min 1 (real (length common_predicates) / 10);
          similarity = calculate_entity_similarity fz self entity1 entity2
      in pattern_strength * 0.6 + similarity * 0.4)"

definition discover_by_patterns ::
  "fuzz \<Rightarrow> ConnectionDiscoverer \<Rightarrow> Entity list \<Rightarrow> Relationship list
    \<Rightarrow> error + ConnectionDiscovery list" where
  "discover_by_patterns fz self entities existing_relationships =
     (let existing_pairs = get_existing_entity_pairs existing_relationships
      in for_each (\<lambda>discoveries pr.
            let entity1 = fst pr; entity2 = snd pr
            in if eid entity1 = eid entity2 then Inr discoveries
               else if entities_connected (eid entity1) (eid entity2) existing_pairs
               then Inr discoveries
               else
                 (case dict_get (relationship_patterns self) (etype entity1, etype entity2) [] of
                    [] \<Rightarrow> Inr discoveries
                  | suggested # rest \<Rightarrow>
                    (let pattern_confidence =
                           calculate_pattern_confidence fz self entity1 entity2 (suggested # rest)
                     in if pattern_confidence \<ge> cd_similarity_threshold self
                        then (case mk_ConnectionDiscovery (eid entity1) (eid entity2) suggested
                                      pattern_confidence ''pattern_matching'' of
                                Inl e \<Rightarrow> Inl e
                              | Inr discovery \<Rightarrow> Inr (discoveries @ [discovery]))
                        else Inr discoveries)))
           (concat (map (\<lambda>entity1. map (\<lambda>entity2. (entity1, entity2)) entities) entities)) [])"

definition deduplicate_discoveries :: "ConnectionDiscovery list \<Rightarrow> ConnectionDiscovery list" where
  "deduplicate_discoveries discoveries =
     concat (map (\<lambda>grp. case snd grp of
                           [] \<Rightarrow> []
                         | d # ds \<Rightarrow> [py_max cconfidence d ds])
       (group_by (\<lambda>d. (subject_entity_id d, object_entity_id d, suggested_predicate d))
          discoveries))"

text \<open>\<open>list.sort(key=lambda d: d.confidence, reverse=True)\<close>: a stable sort by descending
  confidence.\<close>

definition sort_by_confidence :: "ConnectionDiscovery list \<Rightarrow> ConnectionDiscovery list" where
  "sort_by_confidence ds = sort_key (\<lambda>d. - cconfidence d) ds"

text \<open>The list \<open>unique_discoveries\<close> of \<open>discover_connections\<close> as it is before it is sorted:
  the proposals of the four methods, in the order in which the methods run, deduplicated.\<close>

definition unique_discoveries ::
  "fuzz \<Rightarrow> ConnectionDiscoverer \<Rightarrow> Entity list \<Rightarrow> Relationship list
    \<Rightarrow> error + ConnectionDiscovery list" where
  "unique_discoveries fz self0 entities existing_relationships =
     (let self = self0\<lparr>relationship_patterns :=
                        extract_relationship_patterns existing_relationships entities\<rparr>
      in case extend_with [] (discover_by_similarity fz self entities existing_relationships) of
           Inl e \<Rightarrow> Inl e
         | Inr d1 \<Rightarrow>
           (case (if enable_transitive_discovery self
                  then extend_with d1 (discover_transitive_relationships self entities
                                    existing_relationships)
                  else Inr d1) of
              Inl e \<Rightarrow> Inl e
            | Inr d2 \<Rightarrow>
              (case (if enable_domain_rules self
                     then extend_with d2 (discover_by_domain_rules fz self entities
                                       existing_relationships)
                     else Inr d2) of
                 Inl e \<Rightarrow> Inl e
               | Inr d3 \<Rightarrow>
                 (case extend_with d3 (discover_by_patterns fz self entities existing_relationships) of
                    Inl e \<Rightarrow> Inl e
                  | Inr d4 \<Rightarrow> Inr (deduplicate_discoveries d4)))))"

definition discover_connections ::
  "fuzz \<Rightarrow> ConnectionDiscoverer \<Rightarrow> Entity list \<Rightarrow> Relationship list
    \<Rightarrow> error + ConnectionDiscovery list" where
  "discover_connections fz self entities existing_relationships =
     (case unique_discoveries fz self entities existing_relationships of
        Inl e \<Rightarrow> Inl e
      | Inr unique \<Rightarrow> Inr (sort_by_confidence unique))"

section \<open>Pipeline (data\_resolution/run\_resolution.py)\<close>

record config =
  entity_similarity_threshold :: real
  entity_acronym_threshold :: real
  connection_similarity_threshold :: real
  cfg_consolidation_method :: string
  cfg_enable_acronym_matching :: bool
  cfg_enable_transitive_discovery :: bool
  cfg_enable_domain_rules :: bool
  min_discovery_confidence :: real
  max_discoveries_per_run :: int

record ResolutionStats =
  entities_processed :: int
  entities_merged :: int
  relationships_processed :: int
  relationships_consolidated :: int
  new_connections_discovered :: int
  duplicate_entities_removed :: int

record ResolutionResult =
  res_entity_decisions :: "EntityResolutionDecision list"
  res_relationship_decisions :: "RelationshipResolutionDecision list"
  discovered_connections :: "ConnectionDiscovery list"
  res_canonical_entities :: "Entity list"
  consolidated_relationships :: "Relationship list"
  stats :: ResolutionStats

definition run_entity_resolution ::
  "fuzz \<Rightarrow> Entity list \<Rightarrow> config \<Rightarrow> error + Entity list \<times> EntityResolutionDecision list" where
  "run_entity_resolution fz entities cfg =
     resolve_entities fz
       \<lparr>similarity_threshold = entity_similarity_threshold cfg,
        acronym_threshold = entity_acronym_threshold cfg,
        enable_acronym_matching = cfg_enable_acronym_matching cfg,
        canonical_entities = [], resolution_decisions = []\<rparr> entities"

definition build_entity_id_mapping :: "EntityResolutionDecision list \<Rightarrow> (string \<times> string) list" where
  "build_entity_id_mapping entity_decisions =
     foldl (\<lambda>m decision.
              foldl (\<lambda>m' duplicate_id. dict_set duplicate_id (canonical_entity_id decision) m')
                m (duplicate_entity_ids decision))
       [] entity_decisions"

definition run_relationship_resolution ::
  "Relationship list \<Rightarrow> EntityResolutionDecision list \<Rightarrow> config
    \<Rightarrow> error + Relationship list \<times> RelationshipResolutionDecision list" where
  "run_relationship_resolution relationships entity_decisions cfg =
     resolve_relationships
       \<lparr>confidence_consolidation_method = cfg_consolidation_method cfg, rel_decisions = []\<rparr>
       relationships (build_entity_id_mapping entity_decisions)"

text \<open>The slice \<open>xs[:k]\<close> for a Python integer k.\<close>

definition slice_to :: "int \<Rightarrow> 'a list \<Rightarrow> 'a list" where
  "slice_to k xs = (if 0 \<le> k then take (nat k) xs else take (length xs - nat (- k)) xs)"

definition run_connection_discovery ::
  "fuzz \<Rightarrow> Entity list \<Rightarrow> Relationship list \<Rightarrow> config \<Rightarrow> error + ConnectionDiscovery list" where
  "run_connection_discovery fz entities relationships cfg =
     (case discover_connections fz
             \<lparr>cd_similarity_threshold = connection_similarity_threshold cfg,
              description_weight = 0.4, name_weight = 0.6,
              enable_transitive_discovery = cfg_enable_transitive_discovery cfg,
              enable_domain_rules = cfg_enable_domain_rules cfg,
              relationship_patterns = []\<rparr> entities relationships of
        Inl e \<Rightarrow> Inl e
      | Inr discovered \<Rightarrow>
        (let high_confidence_discoveries =
               filter (\<lambda>d. cconfidence d \<ge> min_discovery_confidence cfg) discovered;
             max_discoveries = max_discoveries_per_run cfg
         in if int (length high_confidence_discoveries) > max_discoveries
            then Inr (slice_to max_discoveries high_confidence_discoveries)
            else Inr high_confidence_discoveries))"

text \<open>Steps 1 to 3 of \<open>main\<close> and the construction of the result record.\<close>

definition resolve ::
  "fuzz \<Rightarrow> Entity list \<Rightarrow> Relationship list \<Rightarrow> config \<Rightarrow> error + ResolutionResult" where
  "resolve fz entities relationships cfg =
     (case run_entity_resolution fz entities cfg of
        Inl e \<Rightarrow> Inl e
      | Inr er \<Rightarrow>
        (case run_relationship_resolution relationships (snd er) cfg of
           Inl e \<Rightarrow> Inl e
         | Inr rr \<Rightarrow>
           (case run_connection_discovery fz (fst er) (fst rr) cfg of
              Inl e \<Rightarrow> Inl e
            | Inr discovered \<Rightarrow>
                Inr \<lparr>res_entity_decisions = snd er,
                     res_relationship_decisions = snd rr,
                     discovered_connections = discovered,
                     res_canonical_entities = fst er,
                     consolidated_relationships = fst rr,
                     stats =
                       \<lparr>entities_processed = int (length entities),
                        entities_merged =
                          sum_list (map (\<lambda>d. int (length (duplicate_entity_ids d))) (snd er)),
                        relationships_processed = int (length relationships),
                        relationships_consolidated = int (length (snd rr)),
                        new_connections_discovered = int (length discovered),
                        duplicate_entities_removed =
                          sum_list (map (\<lambda>d. int (length (duplicate_entity_ids d))) (snd er))\<rparr>\<rparr>)))"

section \<open>Notions used in the statements\<close>

text \<open>A discovery list in which every proposal's confidence is at least that of each later one.\<close>

definition by_descending_confidence :: "ConnectionDiscovery list \<Rightarrow> bool" where
  "by_descending_confidence ds = sorted_wrt (\<lambda>a b. cconfidence b \<le> cconfidence a) ds"

text \<open>Proposals of equal confidence stand in \<open>final\<close> in the order they have in \<open>unique\<close>:
  for every confidence that occurs in \<open>final\<close>, the proposals of that confidence in \<open>final\<close>
  are an initial segment of those in \<open>unique\<close>.\<close>

definition equal_confidence_in_order ::
  "ConnectionDiscovery list \<Rightarrow> ConnectionDiscovery list \<Rightarrow> bool" where
  "equal_confidence_in_order final unique =
     (\<forall>d \<in> set final.
        prefix (filter (\<lambda>x. cconfidence x = cconfidence d) final)
               (filter (\<lambda>x. cconfidence x = cconfidence d) unique))"

text \<open>Member i of a cluster has a summed similarity within 10 points of the greatest one.\<close>

definition within_ten :: "fuzz \<Rightarrow> Entity list \<Rightarrow> nat \<Rightarrow> bool" where
  "within_ten fz es i =
     (\<bar>similarity_scores fz es ! i - Max (set (similarity_scores fz es))\<bar> < 10)"

text \<open>What rapidfuzz promises of its scores: they lie between 0 and 100.\<close>

definition fuzz_in_range :: "fuzz \<Rightarrow> bool" where
  "fuzz_in_range fz =
     (\<forall>a b. 0 \<le> partial_ratio fz a b \<and> partial_ratio fz a b \<le> 100
            \<and> 0 \<le> ratio fz a b \<and> ratio fz a b \<le> 100)"

text \<open>What the \<open>Relationship\<close> model enforces of every relationship handed to the resolver.\<close>

definition confidences_in_unit :: "Relationship list \<Rightarrow> bool" where
  "confidences_in_unit rs = (\<forall>r \<in> set rs. in_unit (rconfidence r))"

text \<open>The invariant of the clustering loop: every cluster key is a used name, and names with
  equal cleaned forms are used together and lie in a common cluster.\<close>

definition cluster_inv ::
  "(string \<times> Entity list) list \<Rightarrow> string list \<Rightarrow> (string \<times> Entity list) list \<times> string set \<Rightarrow> bool" where
  "cluster_inv G U st =
     (fst ` set (fst st) \<subseteq> snd st
      \<and> (\<forall>a \<in> set U. \<forall>b \<in> set U. clean_entity_name a = clean_entity_name b \<longrightarrow>
            ((a \<in> snd st) = (b \<in> snd st))
            \<and> (a \<in> snd st \<longrightarrow>
                 (\<exists>cl \<in> set (fst st). set (dict_get G a []) \<union> set (dict_get G b []) \<subseteq> set (snd cl)))))"

text \<open>The first of the cluster names \<open>keys\<close> whose similarity to the name n reaches the
  threshold, and the invariant of the clustering loop that relates it to the clusters: a name is
  used exactly when some cluster name reaches the threshold with it, and a cluster holds the
  entities of exactly the names whose first such cluster name is its own.\<close>

definition first_match :: "fuzz \<Rightarrow> EntityResolver \<Rightarrow> string list \<Rightarrow> string \<Rightarrow> string option" where
  "first_match fz self keys n =
     find (\<lambda>k. similarity_threshold self \<le> name_similarity fz k n) keys"

definition first_match_inv ::
  "fuzz \<Rightarrow> EntityResolver \<Rightarrow> (string \<times> Entity list) list \<Rightarrow> string list
    \<Rightarrow> (string \<times> Entity list) list \<times> string set \<Rightarrow> bool" where
  "first_match_inv fz self G U st =
     (fst ` set (fst st) \<subseteq> snd st
      \<and> (\<forall>n \<in> set U. (n \<in> snd st) = (first_match fz self (map fst (fst st)) n \<noteq> None))
      \<and> (\<forall>cl \<in> set (fst st).
            snd cl = concat (map (\<lambda>n. dict_get G n [])
                         (filter (\<lambda>n. first_match fz self (map fst (fst st)) n = Some (fst cl)) U))))"

text \<open>The first cluster, in the order in which the clusters were started, whose name has a
  partial ratio of 100 with the name of the entity (both names cleaned).\<close>

definition first_full_match ::
  "fuzz \<Rightarrow> (string \<times> Entity list) list \<Rightarrow> Entity \<Rightarrow> string option" where
  "first_full_match fz clusters e =
     find (\<lambda>k. name_similarity fz k (ename e) = 100) (map fst clusters)"

text \<open>The string value of a predicate (\<open>PredicateType\<close> is a string enumeration), and the
  sort key the specification gives for the final discovery list.\<close>

fun predicate_value :: "PredicateType \<Rightarrow> string" where
  "predicate_value HAS_DEFINITION = ''hasDefinition''"
| "predicate_value CALCULATED_BY = ''calculatedBy''"
| "predicate_value BELONGS_TO = ''belongsTo''"
| "predicate_value CONTAINS = ''contains''"
| "predicate_value HAS_TYPE = ''hasType''"
| "predicate_value DEPENDS_ON = ''dependsOn''"
| "predicate_value DERIVED_FROM = ''derivedFrom''"
| "predicate_value MEASURES = ''measures''"
| "predicate_value LOCATED_IN = ''locatedIn''"

definition claimed_discovery_key :: "ConnectionDiscovery \<Rightarrow> real \<times> string \<times> string \<times> string" where
  "claimed_discovery_key d =
     (- cconfidence d, subject_entity_id d, object_entity_id d,
      predicate_value (suggested_predicate d))"

section \<open>Example inputs\<close>

definition default_config :: config where
  "default_config =
     \<lparr>entity_similarity_threshold = 80, entity_acronym_threshold = 98,
      connection_similarity_threshold = 0.6, cfg_consolidation_method = ''max'',
      cfg_enable_acronym_matching = True, cfg_enable_transitive_discovery = True,
      cfg_enable_domain_rules = True, min_discovery_confidence = 0.5,
      max_discoveries_per_run = 1000\<rparr>"

text \<open>The default configuration with a negative bound on the number of discoveries.\<close>

definition negative_cap_config :: config where
  "negative_cap_config = default_config\<lparr>max_discoveries_per_run := - 1\<rparr>"

definition entity ::
  "string \<Rightarrow> EntityType \<Rightarrow> string \<Rightarrow> string option \<Rightarrow> real \<Rightarrow> (string \<times> string) list \<Rightarrow> Entity" where
  "entity i t n d c a =
     \<lparr>eid = i, etype = t, ename = n, edescription = d, econfidence = c, eattributes = a,
      esource_chunk_id = None\<rparr>"

definition decision :: "string \<Rightarrow> string list \<Rightarrow> real \<Rightarrow> string \<Rightarrow> real \<Rightarrow> EntityResolutionDecision" where
  "decision c ds s m conf =
     \<lparr>canonical_entity_id = c, duplicate_entity_ids = ds, similarity_score = s,
      resolution_method = m, dconfidence = conf\<rparr>"

definition proposal :: "string \<Rightarrow> string \<Rightarrow> PredicateType \<Rightarrow> real \<Rightarrow> string \<Rightarrow> ConnectionDiscovery" where
  "proposal s ob p conf m =
     \<lparr>subject_entity_id = s, object_entity_id = ob, suggested_predicate = p, cconfidence = conf,
      discovery_method = m\<rparr>"

text \<open>An acronym entered twice, and two unrelated full forms of it.\<close>

definition ut_upper :: Entity where "ut_upper = entity ''c1'' KPI ''UT'' None 0.9 []"
definition ut_lower :: Entity where "ut_lower = entity ''c2'' KPI ''ut'' None 0.7 []"
definition up_time :: Entity where "up_time = entity ''m1'' KPI ''Up Time'' None 0.9 []"
definition unit_test :: Entity where "unit_test = entity ''m2'' KPI ''Unit Test'' None 0.9 []"

definition ut_fuzzy_decision :: EntityResolutionDecision where
  "ut_fuzzy_decision = decision ''c1'' [''c2''] 1 ''fuzzy_match_medoid'' 1"
definition up_time_decision :: EntityResolutionDecision where
  "up_time_decision = decision ''m1'' [''c1''] 1 ''acronym_match'' 0.9"
definition unit_test_decision :: EntityResolutionDecision where
  "unit_test_decision = decision ''m2'' [''c1''] 1 ''acronym_match'' 0.9"

text \<open>A name, a longer name containing it, and the rest of the longer name.\<close>

definition revenue :: Entity where "revenue = entity ''e1'' KPI ''Revenue'' None 0.5 []"
definition revenue_growth :: Entity where
  "revenue_growth = entity ''e2'' KPI ''Revenue Growth'' None 0.9 []"
definition growth :: Entity where "growth = entity ''e3'' KPI ''Growth'' None 0.5 []"

definition revenue_decision :: EntityResolutionDecision where
  "revenue_decision = decision ''e2'' [''e1''] 1 ''fuzzy_match_medoid'' 0.95"
definition growth_decision :: EntityResolutionDecision where
  "growth_decision = decision ''e2'' [''e3''] 1 ''fuzzy_match_medoid'' 0.95"
definition growth_proposal :: ConnectionDiscovery where
  "growth_proposal = proposal ''e2'' ''e3'' DEPENDS_ON 0.6 ''similarity_analysis''"

definition strict_resolver :: EntityResolver where
  "strict_resolver =
     \<lparr>similarity_threshold = 100, acronym_threshold = 98, enable_acronym_matching = True,
      canonical_entities = [], resolution_decisions = []\<rparr>"

text \<open>Two KPIs with different names and the same description and unit.\<close>

definition load :: Entity where
  "load = entity ''k1'' KPI ''Load'' (Some ''weekly count'') 0.9 [(''unit'', ''count'')]"
definition lead :: Entity where
  "lead = entity ''k2'' KPI ''Lead'' (Some ''weekly count'') 0.9 [(''unit'', ''count'')]"

text \<open>Three entities of different types with one name and one description.\<close>

definition orders_table :: Entity where
  "orders_table = entity ''t2'' TABLE ''Orders'' (Some ''orders'') 0.9 []"
definition orders_source :: Entity where
  "orders_source = entity ''s1'' DATA_SOURCE ''Orders'' (Some ''orders'') 0.9 []"
definition orders_domain :: Entity where
  "orders_domain = entity ''d3'' DOMAIN ''Orders'' (Some ''orders'') 0.9 []"

definition orders_p1 :: ConnectionDiscovery where
  "orders_p1 = proposal ''t2'' ''s1'' DEPENDS_ON 0.8 ''similarity_analysis''"
definition orders_p2 :: ConnectionDiscovery where
  "orders_p2 = proposal ''t2'' ''d3'' DEPENDS_ON 0.8 ''similarity_analysis''"
definition orders_p3 :: ConnectionDiscovery where
  "orders_p3 = proposal ''s1'' ''d3'' DEPENDS_ON 0.8 ''similarity_analysis''"

text \<open>Two entities sharing the id e1, and a relationship whose object is no entity.\<close>

definition churn_kpi :: Entity where "churn_kpi = entity ''e1'' KPI ''Churn'' None 0.9 []"
definition orders_dup :: Entity where "orders_dup = entity ''e1'' TABLE ''Orders'' None 0.9 []"

definition dangling :: Relationship where
  "dangling =
     \<lparr>rid = ''r1'', subject_id = ''e1'', predicate = DEPENDS_ON, object_id = ''zz'',
      rconfidence = 0.8, rcontext = None, rsource_chunk_id = None\<rparr>"

text \<open>Two equally named, equally confident entities.\<close>

definition churn_a :: Entity where "churn_a = entity ''e1'' KPI ''Churn'' None 0.9 []"
definition churn_b :: Entity where "churn_b = entity ''e2'' KPI ''Churn'' None 0.9 []"

text \<open>End-to-end scenario 3 of the specification.\<close>

definition scenario3_r1 :: Relationship where
  "scenario3_r1 =
     \<lparr>rid = ''r1'', subject_id = ''e2'', predicate = DEPENDS_ON, object_id = ''m1'',
      rconfidence = 0.8, rcontext = Some ''A'', rsource_chunk_id = None\<rparr>"
definition scenario3_r2 :: Relationship where
  "scenario3_r2 =
     \<lparr>rid = ''r2'', subject_id = ''e1'', predicate = DEPENDS_ON, object_id = ''m1'',
      rconfidence = 0.6, rcontext = Some ''B'', rsource_chunk_id = None\<rparr>"
definition scenario3_decision :: EntityResolutionDecision where
  "scenario3_decision = decision ''e1'' [''e2''] 1 ''fuzzy_match_medoid'' 1"
definition scenario3_kept :: RelationshipResolutionDecision where
  "scenario3_kept =
     \<lparr>action = KEEP_CANONICAL, canonical_relationship_id = ''r1'',
      merged_relationship_ids = [''r2''], consolidated_confidence = 0.8,
      consolidation_method = ''exact_duplicate_removal''\<rparr>"

definition default_discoverer :: ConnectionDiscoverer where
  "default_discoverer =
     \<lparr>cd_similarity_threshold = 0.6, description_weight = 0.4, name_weight = 0.6,
      enable_transitive_discovery = True, enable_domain_rules = True,
      relationship_patterns = []\<rparr>"

section \<open>Properties\<close>

section \<open>General lemmas\<close>

subsection \<open>Loops, dictionaries and maxima\<close>

lemma for_each_total:
  assumes "P s" and "\<And>s x. x \<in> set xs \<Longrightarrow> P s \<Longrightarrow> \<exists>s'. f s x = Inr s' \<and> P s'"
  shows "\<exists>s'. for_each f xs s = Inr s' \<and> P s'"
  using assms
proof (induction xs arbitrary: s)
  case Nil
  then show ?case by simp
next
  case (Cons x xs)
  from Cons.prems(2)[of x s] Cons.prems(1) obtain s1 where s1: "f s x = Inr s1" "P s1" by auto
  have "\<exists>s'. for_each f xs s1 = Inr s' \<and> P s'"
    by (rule Cons.IH[OF s1(2)]) (use Cons.prems(2) in auto)
  then show ?case using s1 by simp
qed

lemma py_max_snoc:
  "py_max key x (xs @ [y]) = (if key (py_max key x xs) < key y then y else py_max key x xs)"
  by (simp add: py_max_def)

lemma py_max_first:
  "\<exists>i \<le> length xs. py_max key x xs = (x # xs) ! i
      \<and> (\<forall>j \<le> length xs. key ((x # xs) ! j) \<le> key ((x # xs) ! i))
      \<and> (\<forall>j < i. key ((x # xs) ! j) < key ((x # xs) ! i))"
proof (induction xs rule: rev_induct)
  case Nil
  show ?case by (simp add: py_max_def)
next
  case (snoc y xs)
  then obtain i where i: "i \<le> length xs" "py_max key x xs = (x # xs) ! i"
    "\<forall>j \<le> length xs. key ((x # xs) ! j) \<le> key ((x # xs) ! i)"
    "\<forall>j < i. key ((x # xs) ! j) < key ((x # xs) ! i)"
    by blast
  have old: "(x # xs @ [y]) ! j = (x # xs) ! j" if "j \<le> length xs" for j
    using that by (metis Cons_eq_appendI le_imp_less_Suc length_Cons nth_append)
  have new: "(x # xs @ [y]) ! Suc (length xs) = y"
    by (metis append_Cons length_Cons nth_append_length)
  show ?case
  proof (cases "key (py_max key x xs) < key y")
    case True
    let ?k = "Suc (length xs)"
    have a: "py_max key x (xs @ [y]) = (x # xs @ [y]) ! ?k"
      using True new by (simp add: py_max_snoc)
    have b: "key ((x # xs @ [y]) ! j) < key y" if "j \<le> length xs" for j
      using that i True old by (metis le_less_trans)
    have c: "\<forall>j \<le> length (xs @ [y]). key ((x # xs @ [y]) ! j) \<le> key ((x # xs @ [y]) ! ?k)"
    proof (intro allI impI)
      fix j assume "j \<le> length (xs @ [y])"
      then consider "j \<le> length xs" | "j = ?k" by fastforce
      then show "key ((x # xs @ [y]) ! j) \<le> key ((x # xs @ [y]) ! ?k)"
        using b new by cases (auto simp: less_imp_le)
    qed
    have d: "\<forall>j < ?k. key ((x # xs @ [y]) ! j) < key ((x # xs @ [y]) ! ?k)"
      using b new by (simp add: less_Suc_eq_le)
    show ?thesis
      using a c d by (intro exI[of _ ?k]) simp
  next
    case False
    have a: "py_max key x (xs @ [y]) = (x # xs @ [y]) ! i"
      using False i old by (simp add: py_max_snoc)
    have c: "\<forall>j \<le> length (xs @ [y]). key ((x # xs @ [y]) ! j) \<le> key ((x # xs @ [y]) ! i)"
    proof (intro allI impI)
      fix j assume "j \<le> length (xs @ [y])"
      then consider "j \<le> length xs" | "j = Suc (length xs)" by fastforce
      then show "key ((x # xs @ [y]) ! j) \<le> key ((x # xs @ [y]) ! i)"
      proof cases
        case 1 then show ?thesis using i old by simp
      next
        case 2 then show ?thesis using False i old new by (simp add: not_less)
      qed
    qed
    have d: "\<forall>j < i. key ((x # xs @ [y]) ! j) < key ((x # xs @ [y]) ! i)"
    proof (intro allI impI)
      fix j assume ji: "j < i"
      then have "j \<le> length xs" using i(1) by simp
      then have "(x # xs @ [y]) ! j = (x # xs) ! j" by (rule old)
      moreover have "(x # xs @ [y]) ! i = (x # xs) ! i" using i(1) by (rule old)
      ultimately show "key ((x # xs @ [y]) ! j) < key ((x # xs @ [y]) ! i)"
        using i(4) ji by metis
    qed
    show ?thesis
      using a c d i by (intro exI[of _ i]) simp
  qed
qed

lemma py_max_map: "py_max key (f x) (map f xs) = f (py_max (\<lambda>a. key (f a)) x xs)"
proof (induction xs rule: rev_induct)
  case Nil show ?case by (simp add: py_max_def)
next
  case (snoc y xs)
  then show ?case by (simp add: py_max_snoc)
qed

text \<open>First maximum over a non-empty list of indices given as a whole list.\<close>
lemma py_max_list:
  assumes "L \<noteq> []"
  shows "\<exists>p < length L. py_max key (hd L) (tl L) = L ! p
      \<and> (\<forall>q < length L. key (L ! q) \<le> key (L ! p))
      \<and> (\<forall>q < p. key (L ! q) < key (L ! p))"
proof -
  obtain x xs where L: "L = x # xs" using assms by (cases L) auto
  from py_max_first[of xs key x] obtain i where
    "i \<le> length xs" "py_max key x xs = (x # xs) ! i"
    "\<forall>j \<le> length xs. key ((x # xs) ! j) \<le> key ((x # xs) ! i)"
    "\<forall>j < i. key ((x # xs) ! j) < key ((x # xs) ! i)" by blast
  then show ?thesis unfolding L
    by (intro exI[of _ i]) (simp add: less_Suc_eq_le)
qed

lemma py_max_in: "py_max key x xs \<in> set (x # xs)"
proof (induction xs rule: rev_induct)
  case Nil show ?case by (simp add: py_max_def)
next
  case (snoc y xs) then show ?case by (auto simp: py_max_snoc)
qed

lemma dict_set_fresh: "k \<notin> fst ` set d \<Longrightarrow> dict_set k v d = d @ [(k, v)]"
  by (induction d) auto

lemma dict_get_Nil: "dict_get [] k dflt = dflt"
  by (simp add: dict_get_def)

lemma dict_get_Cons: "dict_get ((a, b) # d) k dflt = (if a = k then b else dict_get d k dflt)"
  by (simp add: dict_get_def)

lemma dict_get_dict_append:
  "dict_get (dict_append k v d) q [] =
     (if q = k then dict_get d k [] @ [v] else dict_get d q [])"
proof (induction d)
  case Nil
  show ?case by (simp add: dict_get_Nil dict_get_Cons)
next
  case (Cons p d)
  obtain a b where p: "p = (a, b)" by (cases p)
  show ?case unfolding p using Cons.IH by (cases "q = k") (simp_all add: dict_get_Cons)
qed

lemma keys_dict_append: "fst ` set (dict_append k v d) = insert k (fst ` set d)"
  by (induction k v d rule: dict_append.induct) (simp_all add: insert_commute)

lemma dict_get_foldl_dict_append:
  "dict_get (foldl (\<lambda>d x. dict_append (f x) x d) d0 xs) k [] =
     dict_get d0 k [] @ filter (\<lambda>x. f x = k) xs"
proof (induction xs arbitrary: d0)
  case Nil
  show ?case by simp
next
  case (Cons x xs)
  show ?case by (simp add: Cons.IH dict_get_dict_append)
qed

lemma keys_foldl_dict_append:
  "fst ` set (foldl (\<lambda>d x. dict_append (f x) x d) d0 xs) = fst ` set d0 \<union> f ` set xs"
  by (induction xs arbitrary: d0) (simp_all add: keys_dict_append)

lemma dict_get_group_by: "dict_get (group_by f xs) k [] = filter (\<lambda>x. f x = k) xs"
  by (simp add: group_by_def dict_get_foldl_dict_append dict_get_Nil)

lemma keys_group_by: "fst ` set (group_by f xs) = f ` set xs"
  by (simp add: group_by_def keys_foldl_dict_append)

lemma dict_append_values:
  "(q, vs) \<in> set (dict_append k v d) \<Longrightarrow>
     (q, vs) \<in> set d \<or> vs = [v] \<or> (\<exists>ws. (q, ws) \<in> set d \<and> vs = ws @ [v])"
proof (induction d)
  case Nil
  then show ?case by simp
next
  case (Cons p d)
  obtain a b where p: "p = (a, b)" by (cases p)
  show ?case using Cons unfolding p by (cases "a = k") auto
qed

lemma foldl_dict_append_values:
  assumes "\<forall>(q, vs) \<in> set d0. vs \<noteq> [] \<and> set vs \<subseteq> A" "set xs \<subseteq> A"
  shows "\<forall>(q, vs) \<in> set (foldl (\<lambda>d x. dict_append (f x) x d) d0 xs). vs \<noteq> [] \<and> set vs \<subseteq> A"
  using assms
proof (induction xs arbitrary: d0)
  case Nil
  then show ?case by simp
next
  case (Cons x xs)
  have "\<forall>(q, vs) \<in> set (dict_append (f x) x d0). vs \<noteq> [] \<and> set vs \<subseteq> A"
  proof (clarify)
    fix q vs assume "(q, vs) \<in> set (dict_append (f x) x d0)"
    from dict_append_values[OF this] show "vs \<noteq> [] \<and> set vs \<subseteq> A"
      using Cons.prems by fastforce
  qed
  from Cons.IH[OF this] Cons.prems(2) show ?case by simp
qed

lemma group_by_values:
  assumes "g \<in> set (group_by f xs)"
  shows "snd g \<noteq> [] \<and> set (snd g) \<subseteq> set xs"
proof -
  have "\<forall>(q, vs) \<in> set (group_by f xs). vs \<noteq> [] \<and> set vs \<subseteq> set xs"
    unfolding group_by_def by (rule foldl_dict_append_values) auto
  then show ?thesis using assms by (cases g) auto
qed

lemma dict_set_subset: "set (dict_set k v d) \<subseteq> insert (k, v) (set d)"
  by (induction k v d rule: dict_set.induct) (auto split: if_splits)

subsection \<open>Averages\<close>

lemma sum_list_bounds:
  fixes xs :: "real list"
  assumes "\<forall>x \<in> set xs. lo \<le> x \<and> x \<le> hi"
  shows "lo * real (length xs) \<le> sum_list xs \<and> sum_list xs \<le> hi * real (length xs)"
  using assms by (induction xs) (auto simp: algebra_simps)

lemma average_bounds:
  fixes xs :: "real list"
  assumes "xs \<noteq> []" "\<forall>x \<in> set xs. lo \<le> x \<and> x \<le> hi"
  shows "lo \<le> sum_list xs / real (length xs) \<and> sum_list xs / real (length xs) \<le> hi"
proof -
  have n: "0 < real (length xs)" using assms(1) by simp
  from sum_list_bounds[OF assms(2)] n show ?thesis
    by (simp add: pos_le_divide_eq pos_divide_le_eq)
qed

lemma foldl_max_in: "foldl max (c::real) cs \<in> set (c # cs)"
proof (induction cs rule: rev_induct)
  case Nil show ?case by simp
next
  case (snoc x xs) then show ?case by (auto simp: max_def)
qed

lemma weighted_sum_bounds:
  assumes "\<forall>r \<in> set rs. 0 \<le> f r \<and> f r \<le> (1::real)"
  shows "0 \<le> sum_list (map (\<lambda>r. f r * real (w r)) rs)
         \<and> sum_list (map (\<lambda>r. f r * real (w r)) rs) \<le> real (sum_list (map w rs))"
  using assms
proof (induction rs)
  case Nil
  show ?case by simp
next
  case (Cons r rs)
  have "f r * real (w r) \<le> real (w r)" "0 \<le> f r * real (w r)"
    using Cons.prems by (simp_all add: mult_left_le_one_le)
  then show ?case using Cons by simp
qed

lemma weights_positive:
  "rs \<noteq> [] \<Longrightarrow> 0 < sum_list (map (\<lambda>r. max (1::nat) (g r)) rs)"
  by (cases rs) auto


subsection \<open>Entity resolution returns on every well-typed input\<close>

lemma name_similarity_range:
  "fuzz_in_range fz \<Longrightarrow> 0 \<le> name_similarity fz a b \<and> name_similarity fz a b \<le> 100"
  by (simp add: fuzz_in_range_def name_similarity_def)

lemma pair_similarities_range:
  assumes "fuzz_in_range fz"
  shows "\<forall>x \<in> set (pair_similarities fz es). 0 \<le> x \<and> x \<le> 100"
  using name_similarity_range[OF assms] by (induction es) auto

lemma cluster_similarity_in_unit:
  assumes "fuzz_in_range fz"
  shows "in_unit (calculate_cluster_similarity fz es)"
proof (cases "pair_similarities fz es = []")
  case True
  then show ?thesis by (simp add: calculate_cluster_similarity_def in_unit_def Let_def)
next
  case False
  from average_bounds[OF False pair_similarities_range[OF assms]]
  have "0 \<le> sum_list (pair_similarities fz es) / real (length (pair_similarities fz es)) / 100"
    "sum_list (pair_similarities fz es) / real (length (pair_similarities fz es)) / 100 \<le> 1"
    by simp_all
  then show ?thesis using False
    by (simp only: calculate_cluster_similarity_def in_unit_def Let_def split: if_splits) simp
qed

lemma resolution_confidence_in_unit:
  assumes "fuzz_in_range fz" "\<forall>e \<in> set es. in_unit (econfidence e)"
  shows "in_unit (calculate_resolution_confidence fz es)"
proof (cases "length es < 2")
  case True
  then show ?thesis by (simp add: calculate_resolution_confidence_def in_unit_def)
next
  case False
  then have ne: "map econfidence es \<noteq> []" by auto
  have "\<forall>x \<in> set (map econfidence es). 0 \<le> x \<and> x \<le> 1"
    using assms(2) by (auto simp: in_unit_def)
  from average_bounds[OF ne this]
  have a: "0 \<le> sum_list (map econfidence es) / real (length es)"
          "sum_list (map econfidence es) / real (length es) \<le> 1" by simp_all
  have s: "0 \<le> calculate_cluster_similarity fz es" "calculate_cluster_similarity fz es \<le> 1"
    using cluster_similarity_in_unit[OF assms(1), of es] by (simp_all add: in_unit_def)
  show ?thesis using False a s
    by (simp add: calculate_resolution_confidence_def in_unit_def Let_def)
qed

lemma resolve_entity_cluster_total:
  assumes "fuzz_in_range fz" "\<forall>e \<in> set cl. in_unit (econfidence e)"
  shows "\<exists>s'. resolve_entity_cluster fz self cl = Inr s'"
  using cluster_similarity_in_unit[OF assms(1), of cl] resolution_confidence_in_unit[OF assms]
  by (simp add: resolve_entity_cluster_def Let_def mk_EntityResolutionDecision_def
        split: option.splits)

lemma resolve_cluster_step_total:
  assumes "fuzz_in_range fz" "\<forall>e \<in> set (snd cl). in_unit (econfidence e)"
  shows "\<exists>s'. resolve_cluster_step fz self cl = Inr s'"
  using resolve_entity_cluster_total[OF assms, of self]
  by (auto simp: resolve_cluster_step_def split: list.splits)

lemma fuzzy_cluster_step_cases:
  "fuzzy_cluster_step fz self G U st n = st
   \<or> (\<exists>ns. fst (fuzzy_cluster_step fz self G U st n)
              = dict_set n (concat (map (\<lambda>other_name. dict_get G other_name []) ns)) (fst st))"
  by (simp add: fuzzy_cluster_step_def Let_def) blast

lemma fuzzy_cluster_step_members:
  assumes old: "\<forall>cl \<in> set (fst st). set (snd cl) \<subseteq> A" and G: "\<forall>n. set (dict_get G n []) \<subseteq> A"
  shows "\<forall>cl \<in> set (fst (fuzzy_cluster_step fz self G U st n)). set (snd cl) \<subseteq> A"
proof
  fix cl assume cl: "cl \<in> set (fst (fuzzy_cluster_step fz self G U st n))"
  from fuzzy_cluster_step_cases[of fz self G U st n]
  show "set (snd cl) \<subseteq> A"
  proof
    assume "fuzzy_cluster_step fz self G U st n = st"
    then show ?thesis using cl old by simp
  next
    assume "\<exists>ns. fst (fuzzy_cluster_step fz self G U st n)
              = dict_set n (concat (map (\<lambda>other_name. dict_get G other_name []) ns)) (fst st)"
    then obtain ns where ns: "fst (fuzzy_cluster_step fz self G U st n)
              = dict_set n (concat (map (\<lambda>other_name. dict_get G other_name []) ns)) (fst st)"
      by blast
    have ents: "set (concat (map (\<lambda>other_name. dict_get G other_name []) ns)) \<subseteq> A"
      using G by auto
    from cl ns dict_set_subset[of n "concat (map (\<lambda>other_name. dict_get G other_name []) ns)" "fst st"]
    have "cl = (n, concat (map (\<lambda>other_name. dict_get G other_name []) ns)) \<or> cl \<in> set (fst st)"
      by auto
    then show ?thesis using ents old by auto
  qed
qed

lemma fuzzy_cluster_fold_members:
  assumes "\<forall>n. set (dict_get G n []) \<subseteq> A"
  shows "\<forall>cl \<in> set (fst st). set (snd cl) \<subseteq> A \<Longrightarrow>
         \<forall>cl \<in> set (fst (foldl (fuzzy_cluster_step fz self G U) st xs)). set (snd cl) \<subseteq> A"
proof (induction xs arbitrary: st)
  case Nil
  then show ?case by simp
next
  case (Cons x xs)
  show ?case
    using Cons.IH[OF fuzzy_cluster_step_members[OF Cons.prems assms]] by simp
qed

lemma group_entities_members:
  assumes "cl \<in> set (group_entities_by_fuzzy_match fz self es)"
  shows "set (snd cl) \<subseteq> set es"
proof -
  have "\<forall>n. set (dict_get (group_by ename es) n []) \<subseteq> set es"
    by (simp add: dict_get_group_by)
  from fuzzy_cluster_fold_members[OF this, of "([], {})"] assms
  show ?thesis by (simp add: group_entities_by_fuzzy_match_def Let_def)
qed

lemma resolve_entities_by_type_total:
  assumes "fuzz_in_range fz" "\<forall>e \<in> set es. in_unit (econfidence e)"
  shows "\<exists>s'. resolve_entities_by_type fz self es = Inr s'"
proof (cases "es = []")
  case True
  then show ?thesis by (simp add: resolve_entities_by_type_def)
next
  case False
  have "\<exists>s'. for_each (resolve_cluster_step fz) (group_entities_by_fuzzy_match fz self es) self = Inr s' \<and> True"
  proof (rule for_each_total)
    fix s cl assume "cl \<in> set (group_entities_by_fuzzy_match fz self es)"
    then have "\<forall>e \<in> set (snd cl). in_unit (econfidence e)"
      using group_entities_members assms(2) by blast
    from resolve_cluster_step_total[OF assms(1) this]
    show "\<exists>s'. resolve_cluster_step fz s cl = Inr s' \<and> True" by simp
  qed simp
  then show ?thesis using False by (simp add: resolve_entities_by_type_def)
qed

lemma merge_acronym_step_total:
  assumes "fuzz_in_range fz"
  shows "\<exists>s'. merge_acronym_step fz singles st m = Inr s'"
proof -
  have "in_unit (ratio fz a b / 100)" for a b
    using assms by (simp add: fuzz_in_range_def in_unit_def)
  then show ?thesis
    by (simp add: merge_acronym_step_def Let_def mk_EntityResolutionDecision_def in_unit_def
          split: option.splits)
qed

lemma merge_acronym_entities_total:
  assumes "fuzz_in_range fz"
  shows "\<exists>s'. merge_acronym_entities fz self = Inr s'"
proof -
  define singles where
    "singles = filter (\<lambda>e. CHR '' '' \<notin> set (ename e)) (map snd (canonical_entities self))"
  define multis where
    "multis = filter (\<lambda>e. CHR '' '' \<in> set (ename e)) (map snd (canonical_entities self))"
  have "\<exists>s'. for_each (merge_acronym_step fz singles) multis (self, []) = Inr s' \<and> True"
    by (rule for_each_total) (use merge_acronym_step_total[OF assms] in auto)
  then obtain r where "for_each (merge_acronym_step fz singles) multis (self, []) = Inr r"
    by blast
  then show ?thesis
    by (simp add: merge_acronym_entities_def Let_def singles_def multis_def)
qed

lemma resolve_entities_total:
  assumes "fuzz_in_range fz" "\<forall>e \<in> set es. in_unit (econfidence e)"
  shows "\<exists>r. resolve_entities fz self es = Inr r"
proof -
  define s0 where "s0 = self\<lparr>canonical_entities := [], resolution_decisions := []\<rparr>"
  have "\<exists>s'. for_each (\<lambda>s grp. resolve_entities_by_type fz s (snd grp)) (group_by etype es) s0
          = Inr s' \<and> True"
  proof (rule for_each_total)
    fix s grp assume "grp \<in> set (group_by etype es)"
    then have "\<forall>e \<in> set (snd grp). in_unit (econfidence e)"
      using group_by_values assms(2) by blast
    from resolve_entities_by_type_total[OF assms(1) this]
    show "\<exists>s'. resolve_entities_by_type fz s (snd grp) = Inr s' \<and> True" by simp
  qed simp
  then obtain s1 where s1:
    "for_each (\<lambda>s grp. resolve_entities_by_type fz s (snd grp)) (group_by etype es) s0 = Inr s1"
    by blast
  obtain s2 where s2: "merge_acronym_entities fz s1 = Inr s2"
    using merge_acronym_entities_total[OF assms(1)] by blast
  show ?thesis
    using s1 s2 by (simp add: resolve_entities_def Let_def s0_def)
qed

subsection \<open>Relationship resolution returns on every well-typed input\<close>

lemma update_relationship_entity_ids_in_unit:
  assumes "confidences_in_unit rs"
  shows "confidences_in_unit (update_relationship_entity_ids rs m)"
  using assms
  by (auto simp: confidences_in_unit_def update_relationship_entity_ids_def Let_def)

lemma select_best_relationship_total:
  assumes "rs \<noteq> []"
  shows "\<exists>b. select_best_relationship rs = Inr b \<and> b \<in> set rs"
proof -
  obtain r rest where rs: "rs = r # rest" using assms by (cases rs) auto
  show ?thesis unfolding rs using py_max_in[of best_key r rest]
    by (simp add: select_best_relationship_def)
qed

lemma remove_exact_duplicates_step_total:
  assumes "confidences_in_unit (snd st)" "snd grp \<noteq> []" "confidences_in_unit (snd grp)"
  shows "\<exists>st'. remove_exact_duplicates_step st grp = Inr st' \<and> confidences_in_unit (snd st')"
proof -
  obtain b where b: "select_best_relationship (snd grp) = Inr b" "b \<in> set (snd grp)"
    using select_best_relationship_total[OF assms(2)] by blast
  then have bu: "in_unit (rconfidence b)" using assms(3) by (simp add: confidences_in_unit_def)
  have single: "confidences_in_unit (snd st @ [r])" if "snd grp = [r]" for r
    using assms(1,3) that by (simp add: confidences_in_unit_def)
  have best: "confidences_in_unit (snd st @ [b])"
    using assms(1) bu by (simp add: confidences_in_unit_def)
  show ?thesis
    using b bu single best
    by (auto simp: remove_exact_duplicates_step_def Let_def mk_RelationshipResolutionDecision_def
          split: list.splits)
qed

lemma remove_exact_duplicates_total:
  assumes "confidences_in_unit rs"
  shows "\<exists>res. remove_exact_duplicates self rs = Inr res \<and> confidences_in_unit (snd res)"
  unfolding remove_exact_duplicates_def
proof (rule for_each_total)
  show "confidences_in_unit (snd (self, []))" by (simp add: confidences_in_unit_def)
next
  fix st :: "RelationshipResolver \<times> Relationship list" and grp
  assume g: "grp \<in> set (group_by (\<lambda>r. (subject_id r, predicate r, object_id r)) rs)"
    and st: "confidences_in_unit (snd st)"
  from group_by_values[OF g] assms
  have "snd grp \<noteq> []" "confidences_in_unit (snd grp)"
    by (auto simp: confidences_in_unit_def)
  from remove_exact_duplicates_step_total[OF st this]
  show "\<exists>s'. remove_exact_duplicates_step st grp = Inr s' \<and> confidences_in_unit (snd s')" .
qed

lemma consolidate_confidence_scores_total:
  assumes "rs \<noteq> []" "confidences_in_unit rs"
  shows "\<exists>c. consolidate_confidence_scores self rs = Inr c \<and> in_unit c"
proof -
  obtain r rest where rs: "rs = r # rest" using assms(1) by (cases rs) auto
  have cu: "\<forall>c \<in> set (map rconfidence rs). 0 \<le> c \<and> c \<le> 1"
    using assms(2) by (auto simp: confidences_in_unit_def in_unit_def)
  have mx: "in_unit (foldl max (rconfidence r) (map rconfidence rest))"
    using foldl_max_in[of "rconfidence r" "map rconfidence rest"] cu
    by (auto simp: rs in_unit_def)
  have av: "in_unit (sum_list (map rconfidence rs) / real (length rs))"
    using average_bounds[of "map rconfidence rs" 0 1] assms(1) cu by (simp add: in_unit_def)
  define wt where "wt = (\<lambda>r::Relationship. max (1::nat) (length (case rcontext r of None \<Rightarrow> [] | Some c \<Rightarrow> c)))"
  have zp: "zip (map rconfidence rs) (map wt rs) = map (\<lambda>r. (rconfidence r, wt r)) rs"
    by (simp add: zip_map_map zip_same_conv_map)
  have ws: "sum_list (map (\<lambda>cw. fst cw * real (snd cw)) (zip (map rconfidence rs) (map wt rs)))
              = sum_list (map (\<lambda>r. rconfidence r * real (wt r)) rs)"
    by (simp add: zp comp_def)
  have tw: "0 < sum_list (map wt rs)" unfolding wt_def by (rule weights_positive[OF assms(1)])
  have wb: "0 \<le> sum_list (map (\<lambda>r. rconfidence r * real (wt r)) rs)"
           "sum_list (map (\<lambda>r. rconfidence r * real (wt r)) rs) \<le> real (sum_list (map wt rs))"
    using weighted_sum_bounds[of rs rconfidence wt] assms(2)
    by (simp_all add: confidences_in_unit_def in_unit_def)
  have wg: "in_unit (sum_list (map (\<lambda>cw. fst cw * real (snd cw))
               (zip (map rconfidence rs) (map wt rs))) / real (sum_list (map wt rs)))"
    using wb tw unfolding ws by (simp add: in_unit_def pos_divide_le_eq)
  have single: "in_unit (rconfidence r)" using assms(2) by (simp add: rs confidences_in_unit_def)
  show ?thesis
  proof (cases rest)
    case Nil
    then show ?thesis using single by (simp add: consolidate_confidence_scores_def rs)
  next
    case (Cons r' rest')
    have unf: "consolidate_confidence_scores self rs =
       (if confidence_consolidation_method self = ''max''
        then Inr (foldl max (rconfidence r) (map rconfidence rest))
        else if confidence_consolidation_method self = ''average''
        then Inr (sum_list (map rconfidence rs) / real (length rs))
        else if confidence_consolidation_method self = ''weighted''
        then Inr (sum_list (map (\<lambda>cw. fst cw * real (snd cw))
               (zip (map rconfidence rs) (map wt rs))) / real (sum_list (map wt rs)))
        else Inr (foldl max (rconfidence r) (map rconfidence rest)))"
      using tw unfolding wt_def rs Cons
      by (simp add: consolidate_confidence_scores_def Let_def)
    show ?thesis unfolding unf using mx av wg by simp
  qed
qed

lemma consolidate_predicate_group_total:
  assumes "rs \<noteq> []" "confidences_in_unit rs"
  shows "\<exists>res. consolidate_predicate_group self rs = Inr res"
proof -
  obtain b where b: "select_best_relationship rs = Inr b"
    using select_best_relationship_total[OF assms(1)] by blast
  obtain c where c: "consolidate_confidence_scores self rs = Inr c" "in_unit c"
    using consolidate_confidence_scores_total[OF assms] by blast
  show ?thesis
    using b c
    by (auto simp: consolidate_predicate_group_def Let_def mk_Relationship_def
          mk_RelationshipResolutionDecision_def split: list.splits)
qed

lemma consolidate_relationship_group_step_total:
  assumes "snd grp \<noteq> []" "confidences_in_unit (snd grp)"
  shows "\<exists>st'. consolidate_relationship_group_step st grp = Inr st'"
proof -
  obtain res where "consolidate_predicate_group (fst st) (snd grp) = Inr res"
    using consolidate_predicate_group_total[OF assms] by blast
  then show ?thesis
    by (auto simp: consolidate_relationship_group_step_def split: list.splits)
qed

lemma consolidate_relationship_group_total:
  assumes "confidences_in_unit rs"
  shows "\<exists>res. consolidate_relationship_group self rs = Inr res"
proof (cases "length rs \<le> 1")
  case True
  then show ?thesis by (simp add: consolidate_relationship_group_def)
next
  case False
  have "\<exists>s'. for_each consolidate_relationship_group_step (group_by predicate rs) (self, [])
          = Inr s' \<and> True"
  proof (rule for_each_total)
    fix st grp assume g: "grp \<in> set (group_by predicate rs)"
    from group_by_values[OF g] assms
    have "snd grp \<noteq> []" "confidences_in_unit (snd grp)"
      by (auto simp: confidences_in_unit_def)
    from consolidate_relationship_group_step_total[OF this]
    show "\<exists>s'. consolidate_relationship_group_step st grp = Inr s' \<and> True" by simp
  qed simp
  then show ?thesis using False by (simp add: consolidate_relationship_group_def)
qed

lemma consolidate_similar_step_total:
  assumes "confidences_in_unit (snd grp)"
  shows "\<exists>st'. consolidate_similar_step st grp = Inr st'"
proof -
  obtain res where "consolidate_relationship_group (fst st) (snd grp) = Inr res"
    using consolidate_relationship_group_total[OF assms] by blast
  then show ?thesis
    by (auto simp: consolidate_similar_step_def split: list.splits)
qed

lemma consolidate_similar_relationships_total:
  assumes "confidences_in_unit rs"
  shows "\<exists>res. consolidate_similar_relationships self rs = Inr res"
proof -
  have "\<exists>s'. for_each consolidate_similar_step (group_by pair_key rs) (self, []) = Inr s' \<and> True"
  proof (rule for_each_total)
    fix st grp assume g: "grp \<in> set (group_by pair_key rs)"
    from group_by_values[OF g] assms
    have "confidences_in_unit (snd grp)"
      by (auto simp: confidences_in_unit_def)
    from consolidate_similar_step_total[OF this]
    show "\<exists>s'. consolidate_similar_step st grp = Inr s' \<and> True" by simp
  qed simp
  then show ?thesis by (simp add: consolidate_similar_relationships_def)
qed

lemma resolve_relationships_total:
  assumes "confidences_in_unit rs"
  shows "\<exists>res. resolve_relationships self rs m = Inr res"
proof -
  define upd where "upd = (if m \<noteq> [] then update_relationship_entity_ids rs m else rs)"
  have "confidences_in_unit upd"
    using assms update_relationship_entity_ids_in_unit by (simp add: upd_def)
  then obtain dd where dd: "remove_exact_duplicates (self\<lparr>rel_decisions := []\<rparr>) upd = Inr dd"
      "confidences_in_unit (snd dd)"
    using remove_exact_duplicates_total by blast
  obtain cc where "consolidate_similar_relationships (fst dd) (snd dd) = Inr cc"
    using consolidate_similar_relationships_total[OF dd(2)] by blast
  then show ?thesis using dd(1)
    by (simp add: resolve_relationships_def Let_def upd_def)
qed


subsection \<open>Clustering of equal cleaned names\<close>

lemma name_similarity_clean:
  "clean_entity_name a = clean_entity_name b \<Longrightarrow> name_similarity fz n a = name_similarity fz n b"
  by (simp add: name_similarity_def)

lemma cluster_inv_keys: "cluster_inv G U st \<Longrightarrow> fst ` set (fst st) \<subseteq> snd st"
  unfolding cluster_inv_def by blast

lemma cluster_inv_used:
  "cluster_inv G U st \<Longrightarrow> a \<in> set U \<Longrightarrow> b \<in> set U
    \<Longrightarrow> clean_entity_name a = clean_entity_name b \<Longrightarrow> (a \<in> snd st) = (b \<in> snd st)"
  unfolding cluster_inv_def by blast

lemma cluster_inv_together:
  "cluster_inv G U st \<Longrightarrow> a \<in> set U \<Longrightarrow> b \<in> set U
    \<Longrightarrow> clean_entity_name a = clean_entity_name b \<Longrightarrow> a \<in> snd st
    \<Longrightarrow> \<exists>cl \<in> set (fst st). set (dict_get G a []) \<union> set (dict_get G b []) \<subseteq> set (snd cl)"
  unfolding cluster_inv_def by blast

lemma cluster_invI:
  assumes "fst ` set cs \<subseteq> used"
    and "\<And>a b. a \<in> set U \<Longrightarrow> b \<in> set U \<Longrightarrow> clean_entity_name a = clean_entity_name b
           \<Longrightarrow> (a \<in> used) = (b \<in> used)"
    and "\<And>a b. a \<in> set U \<Longrightarrow> b \<in> set U \<Longrightarrow> clean_entity_name a = clean_entity_name b
           \<Longrightarrow> a \<in> used
           \<Longrightarrow> \<exists>cl \<in> set cs. set (dict_get G a []) \<union> set (dict_get G b []) \<subseteq> set (snd cl)"
  shows "cluster_inv G U (cs, used)"
  unfolding cluster_inv_def fst_conv snd_conv using assms by blast

lemma fuzzy_cluster_step_inv:
  assumes inv: "cluster_inv G U st" and n: "n \<in> set U"
    and refl: "\<forall>s. similarity_threshold self \<le> partial_ratio fz s s"
    and ne: "dict_get G n [] \<noteq> []"
  shows "cluster_inv G U (fuzzy_cluster_step fz self G U st n)
         \<and> n \<in> snd (fuzzy_cluster_step fz self G U st n)
         \<and> snd st \<subseteq> snd (fuzzy_cluster_step fz self G U st n)"
proof (cases "n \<in> snd st")
  case True
  then show ?thesis using inv by (simp add: fuzzy_cluster_step_def)
next
  case False
  define cn where "cn = filter (\<lambda>other_name. other_name \<notin> snd st
                     \<and> name_similarity fz n other_name \<ge> similarity_threshold self) U"
  define ents where "ents = concat (map (\<lambda>other_name. dict_get G other_name []) cn)"
  have ncn: "n \<in> set cn"
    using False n refl by (simp add: cn_def name_similarity_def)
  then have ents_ne: "ents \<noteq> []" using ne by (auto simp: ents_def)
  have fresh: "n \<notin> fst ` set (fst st)" using cluster_inv_keys[OF inv] False by blast
  have step: "fuzzy_cluster_step fz self G U st n = (fst st @ [(n, ents)], snd st \<union> set cn)"
    unfolding fuzzy_cluster_step_def Let_def cn_def[symmetric] ents_def[symmetric]
    using False ents_ne fresh by (simp add: dict_set_fresh)
  have sub: "set (dict_get G a []) \<subseteq> set ents" if "a \<in> set cn" for a
    using that by (auto simp: ents_def)
  have cnab: "(a \<in> set cn) = (b \<in> set cn)"
    if "a \<in> set U" "b \<in> set U" "clean_entity_name a = clean_entity_name b" for a b
  proof -
    have "(a \<in> snd st) = (b \<in> snd st)" using cluster_inv_used[OF inv that] .
    moreover have "name_similarity fz n a = name_similarity fz n b"
      using that(3) by (rule name_similarity_clean)
    ultimately show ?thesis using that(1,2) by (simp add: cn_def)
  qed
  have "cluster_inv G U (fst st @ [(n, ents)], snd st \<union> set cn)"
  proof (rule cluster_invI)
    show "fst ` set (fst st @ [(n, ents)]) \<subseteq> snd st \<union> set cn"
      using cluster_inv_keys[OF inv] ncn by auto
  next
    fix a b assume ab: "a \<in> set U" "b \<in> set U" "clean_entity_name a = clean_entity_name b"
    show "(a \<in> snd st \<union> set cn) = (b \<in> snd st \<union> set cn)"
      using cluster_inv_used[OF inv ab] cnab[OF ab] by blast
  next
    fix a b assume ab: "a \<in> set U" "b \<in> set U" "clean_entity_name a = clean_entity_name b"
      and "a \<in> snd st \<union> set cn"
    then consider "a \<in> snd st" | "a \<in> set cn" by blast
    then show "\<exists>cl \<in> set (fst st @ [(n, ents)]).
                 set (dict_get G a []) \<union> set (dict_get G b []) \<subseteq> set (snd cl)"
    proof cases
      case 1
      from cluster_inv_together[OF inv ab 1] show ?thesis by auto
    next
      case 2
      then have "b \<in> set cn" using cnab[OF ab] by simp
      then have "set (dict_get G a []) \<union> set (dict_get G b []) \<subseteq> set ents"
        using 2 sub by simp
      then show ?thesis by auto
    qed
  qed
  then show ?thesis using step ncn by simp
qed

lemma fuzzy_cluster_fold_inv:
  assumes refl: "\<forall>s. similarity_threshold self \<le> partial_ratio fz s s"
    and ne: "\<forall>n \<in> set U. dict_get G n [] \<noteq> []"
  shows "cluster_inv G U st \<Longrightarrow> set xs \<subseteq> set U \<Longrightarrow>
         cluster_inv G U (foldl (fuzzy_cluster_step fz self G U) st xs)
          \<and> set xs \<union> snd st \<subseteq> snd (foldl (fuzzy_cluster_step fz self G U) st xs)"
proof (induction xs arbitrary: st)
  case Nil
  then show ?case by simp
next
  case (Cons x xs)
  have x: "x \<in> set U" using Cons.prems by simp
  note s = fuzzy_cluster_step_inv[OF Cons.prems(1) x refl ne[rule_format, OF x]]
  have "cluster_inv G U (foldl (fuzzy_cluster_step fz self G U) (fuzzy_cluster_step fz self G U st x) xs)
          \<and> set xs \<union> snd (fuzzy_cluster_step fz self G U st x)
              \<subseteq> snd (foldl (fuzzy_cluster_step fz self G U) (fuzzy_cluster_step fz self G U st x) xs)"
    using Cons.IH[of "fuzzy_cluster_step fz self G U st x"] s Cons.prems by simp
  then show ?case using s by auto
qed

lemma equal_clean_names_cluster_together:
  assumes refl: "\<forall>s. similarity_threshold self \<le> partial_ratio fz s s"
    and e1: "e1 \<in> set es" and e2: "e2 \<in> set es"
    and eq: "clean_entity_name (ename e1) = clean_entity_name (ename e2)"
  shows "\<exists>cl \<in> set (group_entities_by_fuzzy_match fz self es). e1 \<in> set (snd cl) \<and> e2 \<in> set (snd cl)"
proof -
  define G where "G = group_by ename es"
  define U where "U = map fst G"
  define final where "final = foldl (fuzzy_cluster_step fz self G U) ([], {}) U"
  have U: "set U = ename ` set es" by (simp add: U_def G_def keys_group_by)
  have bucket: "dict_get G n [] = filter (\<lambda>e. ename e = n) es" for n
    by (simp add: G_def dict_get_group_by)
  have ne: "\<forall>n \<in> set U. dict_get G n [] \<noteq> []"
    by (auto simp: U bucket filter_empty_conv)
  have "cluster_inv G U ([], {})" by (simp add: cluster_inv_def)
  from fuzzy_cluster_fold_inv[OF refl ne this, of U]
  have inv: "cluster_inv G U final" and used: "set U \<subseteq> snd final"
    by (auto simp: final_def)
  have n1: "ename e1 \<in> set U" and n2: "ename e2 \<in> set U" using e1 e2 U by auto
  then have "ename e1 \<in> snd final" using used by auto
  then obtain cl where cl: "cl \<in> set (fst final)"
      "set (dict_get G (ename e1) []) \<union> set (dict_get G (ename e2) []) \<subseteq> set (snd cl)"
    using cluster_inv_together[OF inv n1 n2 eq] by blast
  have "e1 \<in> set (dict_get G (ename e1) [])" "e2 \<in> set (dict_get G (ename e2) [])"
    using e1 e2 by (simp_all add: bucket)
  then have "e1 \<in> set (snd cl) \<and> e2 \<in> set (snd cl)" using cl by auto
  moreover have "group_entities_by_fuzzy_match fz self es = fst final"
    by (simp add: group_entities_by_fuzzy_match_def Let_def final_def G_def U_def)
  ultimately show ?thesis using cl by auto
qed

subsection \<open>Cluster membership by first matching cluster name\<close>

lemma find_snoc:
  "find P (xs @ [y]) = (case find P xs of None \<Rightarrow> (if P y then Some y else None) | Some x \<Rightarrow> Some x)"
  by (induction xs) auto

lemma find_in_set: "find P xs = Some x \<Longrightarrow> x \<in> set xs"
  by (induction xs) (auto split: if_splits)

lemma first_match_snoc:
  "first_match fz self (keys @ [n]) m =
     (case first_match fz self keys m of
        None \<Rightarrow> (if similarity_threshold self \<le> name_similarity fz n m then Some n else None)
      | Some k \<Rightarrow> Some k)"
  by (simp add: first_match_def find_snoc)

lemma first_match_in_keys: "first_match fz self keys m = Some k \<Longrightarrow> k \<in> set keys"
  unfolding first_match_def by (rule find_in_set)

lemma fuzzy_cluster_step_first_match:
  assumes inv: "first_match_inv fz self G U st" and n: "n \<in> set U"
    and refl: "\<forall>s. similarity_threshold self \<le> partial_ratio fz s s"
    and ne: "dict_get G n [] \<noteq> []"
  shows "first_match_inv fz self G U (fuzzy_cluster_step fz self G U st n)"
proof (cases "n \<in> snd st")
  case True
  then show ?thesis using inv by (simp add: fuzzy_cluster_step_def)
next
  case False
  define keys where "keys = map fst (fst st)"
  define cn where "cn = filter (\<lambda>other_name. other_name \<notin> snd st
                     \<and> name_similarity fz n other_name \<ge> similarity_threshold self) U"
  define ents where "ents = concat (map (\<lambda>other_name. dict_get G other_name []) cn)"
  have ik: "set keys \<subseteq> snd st" using inv by (simp add: first_match_inv_def keys_def)
  have iu: "(m \<in> snd st) = (first_match fz self keys m \<noteq> None)" if "m \<in> set U" for m
    using inv that by (simp add: first_match_inv_def keys_def)
  have ic: "snd cl = concat (map (\<lambda>n. dict_get G n [])
                  (filter (\<lambda>n. first_match fz self keys n = Some (fst cl)) U))"
    if "cl \<in> set (fst st)" for cl
    using inv that by (simp add: first_match_inv_def keys_def)
  have ncn: "n \<in> set cn"
    using False n refl by (simp add: cn_def name_similarity_def)
  then have ents_ne: "ents \<noteq> []" using ne by (auto simp: ents_def)
  have fresh: "n \<notin> fst ` set (fst st)" using ik False by (auto simp: keys_def)
  have nk: "n \<notin> set keys" using ik False by blast
  have step: "fuzzy_cluster_step fz self G U st n = (fst st @ [(n, ents)], snd st \<union> set cn)"
    unfolding fuzzy_cluster_step_def Let_def cn_def[symmetric] ents_def[symmetric]
    using False ents_ne fresh by (simp add: dict_set_fresh)
  have keys': "map fst (fst st @ [(n, ents)]) = keys @ [n]" by (simp add: keys_def)
  have old: "(first_match fz self (keys @ [n]) m = Some k) = (first_match fz self keys m = Some k)"
    if "k \<in> set keys" for m k
    using that nk by (auto simp: first_match_snoc split: option.splits)
  have new: "(first_match fz self (keys @ [n]) m = Some n)
               = (m \<notin> snd st \<and> similarity_threshold self \<le> name_similarity fz n m)"
    if "m \<in> set U" for m
    using iu[OF that] nk first_match_in_keys[of fz self keys m n]
    by (auto simp: first_match_snoc split: option.splits)
  have used: "(m \<in> snd st \<union> set cn) = (first_match fz self (keys @ [n]) m \<noteq> None)"
    if "m \<in> set U" for m
    using iu[OF that] that by (auto simp: first_match_snoc cn_def split: option.splits)
  have cn_eq: "cn = filter (\<lambda>m. first_match fz self (keys @ [n]) m = Some n) U"
    unfolding cn_def by (rule filter_cong) (simp_all add: new)
  have "first_match_inv fz self G U (fst st @ [(n, ents)], snd st \<union> set cn)"
    unfolding first_match_inv_def fst_conv snd_conv keys'
  proof (intro conjI ballI)
    show "fst ` set (fst st @ [(n, ents)]) \<subseteq> snd st \<union> set cn"
      using ik ncn by (auto simp: keys_def)
  next
    fix m assume "m \<in> set U"
    then show "(m \<in> snd st \<union> set cn) = (first_match fz self (keys @ [n]) m \<noteq> None)"
      by (rule used)
  next
    fix cl assume "cl \<in> set (fst st @ [(n, ents)])"
    then consider "cl \<in> set (fst st)" | "cl = (n, ents)" by auto
    then show "snd cl = concat (map (\<lambda>n. dict_get G n [])
                 (filter (\<lambda>m. first_match fz self (keys @ [n]) m = Some (fst cl)) U))"
    proof cases
      case 1
      then have "fst cl \<in> set keys" by (simp add: keys_def)
      then show ?thesis using ic[OF 1] by (simp add: old)
    next
      case 2
      then show ?thesis using cn_eq by (simp add: ents_def)
    qed
  qed
  then show ?thesis using step by simp
qed

lemma fuzzy_cluster_fold_first_match:
  assumes refl: "\<forall>s. similarity_threshold self \<le> partial_ratio fz s s"
    and ne: "\<forall>n \<in> set U. dict_get G n [] \<noteq> []"
  shows "first_match_inv fz self G U st \<Longrightarrow> set xs \<subseteq> set U \<Longrightarrow>
         first_match_inv fz self G U (foldl (fuzzy_cluster_step fz self G U) st xs)"
proof (induction xs arbitrary: st)
  case Nil
  then show ?case by simp
next
  case (Cons x xs)
  have x: "x \<in> set U" using Cons.prems by simp
  note s = fuzzy_cluster_step_first_match[OF Cons.prems(1) x refl ne[rule_format, OF x]]
  show ?case using Cons.IH[OF s] Cons.prems by simp
qed

lemma cluster_members_first_match:
  assumes refl: "\<forall>s. similarity_threshold self \<le> partial_ratio fz s s"
    and e: "e \<in> set es"
    and cl: "cl \<in> set (group_entities_by_fuzzy_match fz self es)"
  shows "(e \<in> set (snd cl))
          = (first_match fz self (map fst (group_entities_by_fuzzy_match fz self es)) (ename e)
               = Some (fst cl))"
proof -
  define G where "G = group_by ename es"
  define U where "U = map fst G"
  define final where "final = foldl (fuzzy_cluster_step fz self G U) ([], {}) U"
  have U: "set U = ename ` set es" by (simp add: U_def G_def keys_group_by)
  have bucket: "dict_get G n [] = filter (\<lambda>e. ename e = n) es" for n
    by (simp add: G_def dict_get_group_by)
  have ne: "\<forall>n \<in> set U. dict_get G n [] \<noteq> []"
    by (auto simp: U bucket filter_empty_conv)
  have "first_match_inv fz self G U ([], {})" by (simp add: first_match_inv_def first_match_def)
  from fuzzy_cluster_fold_first_match[OF refl ne this, of U]
  have inv: "first_match_inv fz self G U final" by (simp add: final_def)
  have res: "group_entities_by_fuzzy_match fz self es = fst final"
    by (simp add: group_entities_by_fuzzy_match_def Let_def final_def G_def U_def)
  have "cl \<in> set (fst final)" using cl res by simp
  then have "snd cl = concat (map (\<lambda>n. dict_get G n [])
               (filter (\<lambda>n. first_match fz self (map fst (fst final)) n = Some (fst cl)) U))"
    using inv by (simp add: first_match_inv_def)
  then have "(e \<in> set (snd cl))
       = (\<exists>n \<in> set U. first_match fz self (map fst (fst final)) n = Some (fst cl) \<and> ename e = n)"
    using e by (auto simp: bucket)
  also have "\<dots> = (first_match fz self (map fst (fst final)) (ename e) = Some (fst cl))"
    using e U by auto
  finally show ?thesis by (simp add: res)
qed

lemma first_match_at_100:
  assumes "similarity_threshold self = 100" and "\<forall>a b. partial_ratio fz a b \<le> 100"
  shows "first_match fz self (map fst clusters) (ename e) = first_full_match fz clusters e"
proof -
  have "(100 \<le> name_similarity fz k n) = (name_similarity fz k n = 100)" for k n
    using assms(2)[rule_format, of "clean_entity_name k" "clean_entity_name n"]
    by (auto simp: name_similarity_def)
  then show ?thesis by (simp add: first_match_def first_full_match_def assms(1))
qed

subsection \<open>Medoid election\<close>

lemma length_similarity_scores: "length (similarity_scores fz es) = length es"
  by (simp add: similarity_scores_def Let_def)

lemma select_medoid_entity_unfold:
  assumes "2 \<le> length es"
  shows "select_medoid_entity fz es =
     (let n = length es; scores = similarity_scores fz es;
          max_idx = py_max (\<lambda>idx. scores ! idx) 0 [1 ..< n];
          idxs = filter (\<lambda>i. \<bar>scores ! i - scores ! max_idx\<bar> < 10) [0 ..< n]
      in case idxs of
           i # i' # rest \<Rightarrow> Some (py_max econfidence (es ! i) (map (\<lambda>i. es ! i) (i' # rest)))
         | _ \<Rightarrow> Some (es ! max_idx))"
proof -
  obtain a b r where "es = a # b # r"
    using assms by (cases es; cases "tl es") auto
  then show ?thesis
    by (simp add: select_medoid_entity_def Let_def split: list.splits)
qed

subsection \<open>Ordering of the discoveries\<close>

lemma sort_by_confidence_descending: "by_descending_confidence (sort_by_confidence ds)"
proof -
  have "sorted (map (\<lambda>d. - cconfidence d) (sort_key (\<lambda>d. - cconfidence d) ds))"
    by (rule sorted_sort_key)
  then show ?thesis
    by (simp add: by_descending_confidence_def sort_by_confidence_def sorted_map)
qed

lemma discover_connections_descending:
  assumes "discover_connections fz self entities rels = Inr ds"
  shows "by_descending_confidence ds"
  using assms sort_by_confidence_descending
  by (auto simp: discover_connections_def unique_discoveries_def Let_def split: sum.splits if_splits)

lemma slice_to_descending: "by_descending_confidence ds \<Longrightarrow> by_descending_confidence (slice_to k ds)"
  by (simp add: by_descending_confidence_def slice_to_def sorted_wrt_take)

lemma slice_to_length: "0 \<le> k \<Longrightarrow> int (length (slice_to k ds)) \<le> k"
  by (simp add: slice_to_def)

lemma run_connection_discovery_descending:
  assumes "run_connection_discovery fz entities rels cfg = Inr ds"
  shows "by_descending_confidence ds"
proof -
  obtain found where f: "discover_connections fz
             \<lparr>cd_similarity_threshold = connection_similarity_threshold cfg,
              description_weight = 0.4, name_weight = 0.6,
              enable_transitive_discovery = cfg_enable_transitive_discovery cfg,
              enable_domain_rules = cfg_enable_domain_rules cfg,
              relationship_patterns = []\<rparr> entities rels = Inr found"
    using assms by (auto simp: run_connection_discovery_def split: sum.splits)
  have "by_descending_confidence (filter (\<lambda>d. cconfidence d \<ge> min_discovery_confidence cfg) found)"
    using discover_connections_descending[OF f]
    by (simp add: by_descending_confidence_def sorted_wrt_filter)
  then show ?thesis
    using assms f slice_to_descending
    by (auto simp: run_connection_discovery_def Let_def split: if_splits)
qed

lemma run_connection_discovery_length:
  assumes "run_connection_discovery fz entities rels cfg = Inr ds" "0 \<le> max_discoveries_per_run cfg"
  shows "int (length ds) \<le> max_discoveries_per_run cfg"
  using assms slice_to_length[of "max_discoveries_per_run cfg"]
  by (auto simp: run_connection_discovery_def Let_def split: sum.splits if_splits)

lemma filter_sort_by_confidence:
  "filter (\<lambda>x. cconfidence x = c) (sort_by_confidence ds) = filter (\<lambda>x. cconfidence x = c) ds"
  using sort_key_stable[of "\<lambda>d. - cconfidence d" "- c" ds] by (simp add: sort_by_confidence_def)

lemma slice_to_prefix: "prefix (slice_to k xs) xs"
  by (simp add: slice_to_def take_is_prefix)

lemma run_connection_discovery_ties:
  assumes "run_connection_discovery fz entities rels cfg = Inr ds"
  shows "\<exists>unique. unique_discoveries fz
             \<lparr>cd_similarity_threshold = connection_similarity_threshold cfg,
              description_weight = 0.4, name_weight = 0.6,
              enable_transitive_discovery = cfg_enable_transitive_discovery cfg,
              enable_domain_rules = cfg_enable_domain_rules cfg,
              relationship_patterns = []\<rparr> entities rels = Inr unique
           \<and> equal_confidence_in_order ds unique"
proof -
  define self where "self = \<lparr>cd_similarity_threshold = connection_similarity_threshold cfg,
              description_weight = 0.4, name_weight = 0.6,
              enable_transitive_discovery = cfg_enable_transitive_discovery cfg,
              enable_domain_rules = cfg_enable_domain_rules cfg,
              relationship_patterns = []\<rparr>"
  have run: "run_connection_discovery fz entities rels cfg =
      (case discover_connections fz self entities rels of
         Inl e \<Rightarrow> Inl e
       | Inr discovered \<Rightarrow>
           (let high_confidence_discoveries =
                  filter (\<lambda>d. cconfidence d \<ge> min_discovery_confidence cfg) discovered;
                max_discoveries = max_discoveries_per_run cfg
            in if int (length high_confidence_discoveries) > max_discoveries
               then Inr (slice_to max_discoveries high_confidence_discoveries)
               else Inr high_confidence_discoveries))"
    unfolding run_connection_discovery_def self_def ..
  obtain unique where u: "unique_discoveries fz self entities rels = Inr unique"
    using assms unfolding run discover_connections_def by (auto split: sum.splits)
  then have dc: "discover_connections fz self entities rels = Inr (sort_by_confidence unique)"
    by (simp add: discover_connections_def)
  define hc where
    "hc = filter (\<lambda>d. cconfidence d \<ge> min_discovery_confidence cfg) (sort_by_confidence unique)"
  have "ds = slice_to (max_discoveries_per_run cfg) hc \<or> ds = hc"
    using assms unfolding run dc by (auto simp: hc_def Let_def split: if_splits)
  then have p: "prefix ds hc"
    using slice_to_prefix[of "max_discoveries_per_run cfg" hc] by auto
  have "prefix (filter (\<lambda>x. cconfidence x = cconfidence d) ds)
               (filter (\<lambda>x. cconfidence x = cconfidence d) unique)" if "d \<in> set ds" for d
  proof -
    have "d \<in> set hc" using p that by (auto simp: prefix_def)
    then have m: "min_discovery_confidence cfg \<le> cconfidence d" by (simp add: hc_def)
    have "filter (\<lambda>x. cconfidence x = cconfidence d) hc
            = filter (\<lambda>x. cconfidence x = cconfidence d) (sort_by_confidence unique)"
      unfolding hc_def filter_filter by (rule filter_cong) (use m in auto)
    then have "filter (\<lambda>x. cconfidence x = cconfidence d) hc
            = filter (\<lambda>x. cconfidence x = cconfidence d) unique"
      by (simp add: filter_sort_by_confidence)
    then show ?thesis using filter_mono_prefix[OF p, of "\<lambda>x. cconfidence x = cconfidence d"] by simp
  qed
  then show ?thesis using u by (auto simp: equal_confidence_in_order_def self_def)
qed

lemma resolve_stages:
  assumes "resolve fz entities relationships cfg = Inr res"
  shows "run_entity_resolution fz entities cfg = Inr (res_canonical_entities res, res_entity_decisions res)"
    and "run_relationship_resolution relationships (res_entity_decisions res) cfg
           = Inr (consolidated_relationships res, res_relationship_decisions res)"
    and "run_connection_discovery fz (res_canonical_entities res) (consolidated_relationships res) cfg
           = Inr (discovered_connections res)"
  using assms by (auto simp: resolve_def split: sum.splits)


subsection \<open>The modelled similarity functions\<close>

lemma lcs_le: "lcs xs ys \<le> length xs \<and> lcs xs ys \<le> length ys"
  by (induction xs ys rule: lcs.induct) auto

lemma lcs_refl: "lcs xs xs = length xs"
  by (induction xs) auto

lemma edit_ratio_range: "0 \<le> edit_ratio s t \<and> edit_ratio s t \<le> 100"
proof (cases "s = [] \<and> t = []")
  case True
  then show ?thesis by (simp add: edit_ratio_def)
next
  case False
  then have "0 < length s + length t" by auto
  then have pos: "0 < real (length s + length t)" by (simp only: of_nat_0_less_iff)
  have "2 * lcs s t \<le> length s + length t" using lcs_le[of s t] by simp
  then have "2 * real (lcs s t) \<le> real (length s + length t)"
    by (metis of_nat_le_iff of_nat_mult of_nat_numeral)
  then have "100 * (2 * real (lcs s t)) / real (length s + length t) \<le> 100"
    using pos by (simp add: pos_divide_le_eq)
  moreover have "0 \<le> 100 * (2 * real (lcs s t)) / real (length s + length t)" by simp
  ultimately show ?thesis using False by (simp add: edit_ratio_def)
qed

lemma edit_ratio_refl: "edit_ratio s s = 100"
  by (simp add: edit_ratio_def lcs_refl)

lemma windows_self: "windows (length s) s = [s]"
  by (cases s) simp_all

lemma spec_partial_ratio_range: "0 \<le> spec_partial_ratio a b \<and> spec_partial_ratio a b \<le> 100"
proof -
  have "0 \<le> (case map (edit_ratio s) ws of [] \<Rightarrow> 0 | r # rs \<Rightarrow> foldl max r rs)
        \<and> (case map (edit_ratio s) ws of [] \<Rightarrow> 0 | r # rs \<Rightarrow> foldl max r rs) \<le> 100" for s ws
  proof (cases "map (edit_ratio s) ws")
    case Nil
    then show ?thesis by simp
  next
    case (Cons r rs)
    have "foldl max r rs \<in> set (map (edit_ratio s) ws)"
      using foldl_max_in[of r rs] Cons by simp
    then obtain w where "foldl max r rs = edit_ratio s w" by auto
    then show ?thesis using Cons edit_ratio_range[of s w] by simp
  qed
  then show ?thesis by (simp add: spec_partial_ratio_def Let_def)
qed

lemma spec_partial_ratio_refl: "spec_partial_ratio s s = 100"
  by (simp add: spec_partial_ratio_def windows_self edit_ratio_refl)

lemma foldl_max_ge: "x \<in> set (r # rs) \<Longrightarrow> x \<le> foldl max (r::real) rs"
proof (induction rs rule: rev_induct)
  case Nil
  then show ?case by simp
next
  case (snoc y ys)
  then show ?case by (auto simp: max_def)
qed

text \<open>A string that occurs in the other one scores 100, in either argument order.\<close>

lemma spec_partial_ratio_window:
  assumes "length s \<le> length t" "s \<in> set (windows (length s) t)"
  shows "spec_partial_ratio s t = 100" and "spec_partial_ratio t s = 100"
proof -
  obtain r rs where rs: "map (edit_ratio s) (windows (length s) t) = r # rs"
    using assms(2) by (cases "map (edit_ratio s) (windows (length s) t)") auto
  have "edit_ratio s s \<in> set (r # rs)" using assms(2) rs[symmetric] by simp
  then have "100 \<le> foldl max r rs" using foldl_max_ge[of "edit_ratio s s" r rs]
    by (simp add: edit_ratio_refl)
  moreover have "foldl max r rs \<le> 100"
    using spec_partial_ratio_range[of s t] assms(1) rs by (simp add: spec_partial_ratio_def)
  ultimately show a: "spec_partial_ratio s t = 100"
    using assms(1) rs by (simp add: spec_partial_ratio_def)
  show "spec_partial_ratio t s = 100"
  proof (cases "length t \<le> length s")
    case True
    then have "length s = length t" using assms(1) by simp
    then have "s = t" using assms(2) windows_self[of t] by simp
    then show ?thesis by (simp add: spec_partial_ratio_refl)
  next
    case False
    then show ?thesis using a assms(1) by (simp add: spec_partial_ratio_def)
  qed
qed

lemma name_similarity_window:
  assumes "length (clean_entity_name a) \<le> length (clean_entity_name b)"
    and "clean_entity_name a
           \<in> set (windows (length (clean_entity_name a)) (clean_entity_name b))"
  shows "name_similarity rapidfuzz a b = 100" and "name_similarity rapidfuzz b a = 100"
  using spec_partial_ratio_window[OF assms] by (simp_all add: name_similarity_def rapidfuzz_def)

lemma rapidfuzz_sel: "partial_ratio rapidfuzz = spec_partial_ratio" "ratio rapidfuzz = edit_ratio"
  by (simp_all add: rapidfuzz_def)

lemma rapidfuzz_in_range: "fuzz_in_range rapidfuzz"
  by (simp add: fuzz_in_range_def rapidfuzz_sel spec_partial_ratio_range edit_ratio_range)

lemma name_similarity_refl: "name_similarity rapidfuzz n n = 100"
  by (simp add: name_similarity_def rapidfuzz_sel spec_partial_ratio_refl)

subsection \<open>Evaluation of the example inputs\<close>

lemmas string_defs = clean_entity_name_def lower_def upper_def lower_char_def upper_char_def
  strip_def is_space_def is_punctuation_def str_split_def acronym_of_def

lemmas fuzz_defs = rapidfuzz_sel name_similarity_def spec_partial_ratio_def edit_ratio_def

lemma entity_fields:
  "eid (entity i t n d c a) = i" "etype (entity i t n d c a) = t" "ename (entity i t n d c a) = n"
  "edescription (entity i t n d c a) = d" "econfidence (entity i t n d c a) = c"
  "eattributes (entity i t n d c a) = a"
  by (simp_all add: entity_def)

lemma decision_fields:
  "canonical_entity_id (decision c ds s m conf) = c"
  "duplicate_entity_ids (decision c ds s m conf) = ds"
  by (simp_all add: decision_def)

lemma proposal_fields:
  "subject_entity_id (proposal s ob p conf m) = s" "object_entity_id (proposal s ob p conf m) = ob"
  "suggested_predicate (proposal s ob p conf m) = p" "cconfidence (proposal s ob p conf m) = conf"
  by (simp_all add: proposal_def)

lemma mk_EntityResolutionDecision_decision:
  "in_unit s \<Longrightarrow> in_unit conf \<Longrightarrow> mk_EntityResolutionDecision c ds s m conf = Inr (decision c ds s m conf)"
  by (simp add: mk_EntityResolutionDecision_def decision_def)

lemma mk_ConnectionDiscovery_proposal:
  "mk_ConnectionDiscovery s ob p conf m = (if in_unit conf then Inr (proposal s ob p conf m) else Inl ValidationError)"
  by (simp add: mk_ConnectionDiscovery_def proposal_def)

lemma by_type_single:
  "similarity_threshold self \<le> name_similarity fz (ename e) (ename e) \<Longrightarrow>
   resolve_entities_by_type fz self [e]
     = Inr (self\<lparr>canonical_entities := dict_set (eid e) e (canonical_entities self)\<rparr>)"
  by (simp add: resolve_entities_by_type_def group_entities_by_fuzzy_match_def group_by_def
        fuzzy_cluster_step_def dict_get_def resolve_cluster_step_def)

lemma no_relationships: "run_relationship_resolution [] ds cfg = Inr ([], [])"
  by (simp add: run_relationship_resolution_def resolve_relationships_def
        remove_exact_duplicates_def group_by_def consolidate_similar_relationships_def
        update_relationship_entity_ids_def)

text \<open>The acronym entities.\<close>

lemma ut_fields:
  "eid ut_upper = ''c1''" "etype ut_upper = KPI" "ename ut_upper = ''UT''" "econfidence ut_upper = 0.9"
  "eid ut_lower = ''c2''" "etype ut_lower = KPI" "ename ut_lower = ''ut''" "econfidence ut_lower = 0.7"
  "eid up_time = ''m1''" "etype up_time = KPI" "ename up_time = ''Up Time''" "econfidence up_time = 0.9"
  "eid unit_test = ''m2''" "etype unit_test = KPI" "ename unit_test = ''Unit Test''"
  "econfidence unit_test = 0.9"
  "edescription up_time = None" "edescription unit_test = None"
  "eattributes up_time = []" "eattributes unit_test = []"
  by (simp_all add: ut_upper_def ut_lower_def up_time_def unit_test_def entity_fields)

lemma ut_cleaned:
  "clean_entity_name ''UT'' = ''ut''" "clean_entity_name ''ut'' = ''ut''"
  "clean_entity_name ''Up Time'' = ''up time''" "clean_entity_name ''Unit Test'' = ''unit test''"
  by (simp_all add: string_defs)

lemma ut_similarities:
  "name_similarity rapidfuzz ''UT'' ''UT'' = 100"
  "name_similarity rapidfuzz ''UT'' ''ut'' = 100"
  "name_similarity rapidfuzz ''UT'' ''Up Time'' = 50"
  "name_similarity rapidfuzz ''UT'' ''Unit Test'' = 50"
  "name_similarity rapidfuzz ''ut'' ''UT'' = 100"
  "name_similarity rapidfuzz ''ut'' ''ut'' = 100"
  "name_similarity rapidfuzz ''ut'' ''Up Time'' = 50"
  "name_similarity rapidfuzz ''Up Time'' ''UT'' = 50"
  "name_similarity rapidfuzz ''Up Time'' ''ut'' = 50"
  "name_similarity rapidfuzz ''Up Time'' ''Up Time'' = 100"
  "name_similarity rapidfuzz ''Up Time'' ''Unit Test'' = 400 / 7"
  "name_similarity rapidfuzz ''Unit Test'' ''UT'' = 50"
  "name_similarity rapidfuzz ''Unit Test'' ''Up Time'' = 400 / 7"
  "name_similarity rapidfuzz ''Unit Test'' ''Unit Test'' = 100"
  by (simp_all add: name_similarity_def ut_cleaned rapidfuzz_sel spec_partial_ratio_refl
        spec_partial_ratio_def edit_ratio_def)

lemma ut_acronyms:
  "acronym_of ''Up Time'' = ''UT''" "acronym_of ''Unit Test'' = ''UT''"
  "ratio rapidfuzz ''UT'' (upper ''UT'') = 100"
  by (simp_all add: string_defs fuzz_defs)

lemma ut_group:
  "similarity_threshold self = 80 \<Longrightarrow>
   group_entities_by_fuzzy_match rapidfuzz self [ut_upper, ut_lower, up_time]
     = [(''UT'', [ut_upper, ut_lower]), (''Up Time'', [up_time])]"
  by (simp add: group_entities_by_fuzzy_match_def group_by_def fuzzy_cluster_step_def
        ut_similarities ut_fields dict_get_def)

lemma ut_medoid: "select_medoid_entity rapidfuzz [ut_upper, ut_lower] = Some ut_upper"
  by (simp add: select_medoid_entity_def similarity_scores_def py_max_def ut_similarities ut_fields)

lemma ut_cluster:
  "similarity_threshold self = 80 \<Longrightarrow> canonical_entities self = [] \<Longrightarrow>
   resolution_decisions self = [] \<Longrightarrow>
   resolve_entity_cluster rapidfuzz self [ut_upper, ut_lower]
     = Inr (self\<lparr>canonical_entities := [(''c1'', ut_upper)],
                resolution_decisions := [ut_fuzzy_decision]\<rparr>)"
  by (simp add: resolve_entity_cluster_def ut_medoid find_matching_canonical_entity_def
        calculate_cluster_similarity_def calculate_resolution_confidence_def
        mk_EntityResolutionDecision_decision in_unit_def ut_similarities ut_fields
        ut_fuzzy_decision_def)

lemma ut_by_type:
  "similarity_threshold self = 80 \<Longrightarrow> canonical_entities self = [] \<Longrightarrow>
   resolution_decisions self = [] \<Longrightarrow>
   resolve_entities_by_type rapidfuzz self [ut_upper, ut_lower, up_time]
     = Inr (self\<lparr>canonical_entities := [(''c1'', ut_upper), (''m1'', up_time)],
                resolution_decisions := [ut_fuzzy_decision]\<rparr>)"
  by (simp add: resolve_entities_by_type_def ut_group resolve_cluster_step_def ut_cluster ut_fields)

lemma ut_merge:
  "acronym_threshold self = 98 \<Longrightarrow> enable_acronym_matching self \<Longrightarrow>
   canonical_entities self = [(''c1'', ut_upper), (''m1'', up_time)] \<Longrightarrow>
   resolution_decisions self = [ut_fuzzy_decision] \<Longrightarrow>
   merge_acronym_entities rapidfuzz self
     = Inr (self\<lparr>canonical_entities := [(''m1'', up_time)],
                resolution_decisions := [ut_fuzzy_decision, up_time_decision]\<rparr>)"
  by (simp add: merge_acronym_entities_def merge_acronym_step_def ut_fields ut_acronyms
        mk_EntityResolutionDecision_decision in_unit_def dict_del_def up_time_decision_def)

lemma ut_resolution:
  "run_entity_resolution rapidfuzz [ut_upper, ut_lower, up_time] default_config
     = Inr ([up_time], [ut_fuzzy_decision, up_time_decision])"
  by (simp add: run_entity_resolution_def resolve_entities_def default_config_def group_by_def
        ut_fields ut_by_type ut_merge)

lemma ut_mapping:
  "build_entity_id_mapping [ut_fuzzy_decision, up_time_decision]
     = [(''c2'', ''c1''), (''c1'', ''m1'')]"
  by (simp add: build_entity_id_mapping_def ut_fuzzy_decision_def up_time_decision_def
        decision_fields)

text \<open>One acronym, two full forms.\<close>

lemma ut_double_group:
  "similarity_threshold self = 80 \<Longrightarrow>
   group_entities_by_fuzzy_match rapidfuzz self [up_time, unit_test, ut_upper]
     = [(''Up Time'', [up_time]), (''Unit Test'', [unit_test]), (''UT'', [ut_upper])]"
  by (simp add: group_entities_by_fuzzy_match_def group_by_def fuzzy_cluster_step_def
        ut_similarities ut_fields dict_get_def)

lemma ut_double_by_type:
  "similarity_threshold self = 80 \<Longrightarrow> canonical_entities self = [] \<Longrightarrow>
   resolve_entities_by_type rapidfuzz self [up_time, unit_test, ut_upper]
     = Inr (self\<lparr>canonical_entities :=
                  [(''m1'', up_time), (''m2'', unit_test), (''c1'', ut_upper)]\<rparr>)"
  by (simp add: resolve_entities_by_type_def ut_double_group resolve_cluster_step_def ut_fields)

lemma ut_double_merge:
  "acronym_threshold self = 98 \<Longrightarrow> enable_acronym_matching self \<Longrightarrow>
   canonical_entities self = [(''m1'', up_time), (''m2'', unit_test), (''c1'', ut_upper)] \<Longrightarrow>
   resolution_decisions self = [] \<Longrightarrow>
   merge_acronym_entities rapidfuzz self
     = Inr (self\<lparr>canonical_entities := [(''m1'', up_time), (''m2'', unit_test)],
                resolution_decisions := [up_time_decision, unit_test_decision]\<rparr>)"
  by (simp add: merge_acronym_entities_def merge_acronym_step_def ut_fields ut_acronyms
        mk_EntityResolutionDecision_decision in_unit_def dict_del_def up_time_decision_def
        unit_test_decision_def)

lemma ut_double_resolution:
  "run_entity_resolution rapidfuzz [up_time, unit_test, ut_upper] default_config
     = Inr ([up_time, unit_test], [up_time_decision, unit_test_decision])"
  by (simp add: run_entity_resolution_def resolve_entities_def default_config_def group_by_def
        ut_fields ut_double_by_type ut_double_merge)

lemma ut_double_similarity:
  assumes "name_weight self = 0.6" "description_weight self = 0.4"
  shows "calculate_entity_similarity rapidfuzz self up_time unit_test = 12 / 35"
proof -
  have "partial_ratio rapidfuzz (lower ''Up Time'') (lower ''Unit Test'') = 400 / 7"
    by (simp add: fuzz_defs string_defs)
  then show ?thesis
    by (simp add: assms calculate_entity_similarity_def ut_fields calculate_attribute_similarity_def)
qed

lemma ut_double_discovery:
  "run_connection_discovery rapidfuzz [up_time, unit_test] [] default_config = Inr []"
proof -
  have a: "discover_by_similarity rapidfuzz self [up_time, unit_test] [] = Inr []"
    if "name_weight self = 0.6" "description_weight self = 0.4" "cd_similarity_threshold self = 0.6"
    for self
    by (simp add: that Let_def discover_by_similarity_def get_existing_entity_pairs_def
          entities_connected_def ut_double_similarity ut_fields)
  have b: "discover_transitive_relationships self [up_time, unit_test] [] = Inr []" for self
    by (simp add: discover_transitive_relationships_def dict_get_def)
  have c: "discover_by_domain_rules rapidfuzz self [up_time, unit_test] [] = Inr []" for self
    by (simp add: discover_by_domain_rules_def group_by_def ut_fields dict_get_def)
  have d: "discover_by_patterns rapidfuzz self [up_time, unit_test] [] = Inr []"
    if "relationship_patterns self = []" for self
    by (simp add: that discover_by_patterns_def get_existing_entity_pairs_def
          entities_connected_def ut_fields dict_get_def)
  show ?thesis
    by (simp add: run_connection_discovery_def discover_connections_def unique_discoveries_def default_config_def
          extract_relationship_patterns_def a b c d extend_with_def sort_by_confidence_def
          deduplicate_discoveries_def group_by_def)
qed

lemma ut_double_resolve:
  "resolve rapidfuzz [up_time, unit_test, ut_upper] [] default_config =
     Inr \<lparr>res_entity_decisions = [up_time_decision, unit_test_decision],
          res_relationship_decisions = [], discovered_connections = [],
          res_canonical_entities = [up_time, unit_test], consolidated_relationships = [],
          stats = \<lparr>entities_processed = 3, entities_merged = 2, relationships_processed = 0,
                   relationships_consolidated = 0, new_connections_discovered = 0,
                   duplicate_entities_removed = 2\<rparr>\<rparr>"
  by (simp add: resolve_def ut_double_resolution no_relationships ut_double_discovery
        up_time_decision_def unit_test_decision_def decision_fields)

text \<open>A name, a longer name containing it, and the rest of the longer name.\<close>

lemma revenue_fields:
  "eid revenue = ''e1''" "etype revenue = KPI" "ename revenue = ''Revenue''"
  "econfidence revenue = 0.5"
  "eid revenue_growth = ''e2''" "etype revenue_growth = KPI"
  "ename revenue_growth = ''Revenue Growth''" "econfidence revenue_growth = 0.9"
  "eid growth = ''e3''" "etype growth = KPI" "ename growth = ''Growth''" "econfidence growth = 0.5"
  "edescription revenue_growth = None" "edescription growth = None"
  "eattributes revenue_growth = []" "eattributes growth = []"
  by (simp_all add: revenue_def revenue_growth_def growth_def entity_fields)

lemma revenue_cleaned:
  "clean_entity_name ''Revenue'' = ''revenue''" "clean_entity_name ''Growth'' = ''growth''"
  "clean_entity_name ''Revenue Growth'' = ''revenue growth''"
  by (simp_all add: string_defs)

lemma revenue_similarities:
  "name_similarity rapidfuzz ''Revenue'' ''Revenue'' = 100"
  "name_similarity rapidfuzz ''Revenue'' ''Revenue Growth'' = 100"
  "name_similarity rapidfuzz ''Revenue'' ''Growth'' = 50 / 3"
  "name_similarity rapidfuzz ''Revenue Growth'' ''Revenue'' = 100"
  "name_similarity rapidfuzz ''Revenue Growth'' ''Revenue Growth'' = 100"
  "name_similarity rapidfuzz ''Revenue Growth'' ''Growth'' = 100"
  "name_similarity rapidfuzz ''Growth'' ''Revenue Growth'' = 100"
  "name_similarity rapidfuzz ''Growth'' ''Growth'' = 100"
proof -
  show "name_similarity rapidfuzz ''Revenue'' ''Revenue Growth'' = 100"
    and "name_similarity rapidfuzz ''Revenue Growth'' ''Revenue'' = 100"
    by (rule name_similarity_window; simp add: revenue_cleaned)+
  show "name_similarity rapidfuzz ''Growth'' ''Revenue Growth'' = 100"
    and "name_similarity rapidfuzz ''Revenue Growth'' ''Growth'' = 100"
    by (rule name_similarity_window; simp add: revenue_cleaned)+
  show "name_similarity rapidfuzz ''Revenue'' ''Growth'' = 50 / 3"
    by (simp add: name_similarity_def revenue_cleaned rapidfuzz_sel spec_partial_ratio_def
          edit_ratio_def)
qed (simp_all add: name_similarity_refl)

lemma revenue_acronym:
  "acronym_of ''Revenue Growth'' = ''RG''" "ratio rapidfuzz ''RG'' (upper ''Growth'') = 25"
  by (simp_all add: string_defs fuzz_defs)

lemma revenue_group:
  "similarity_threshold self = 80 \<Longrightarrow>
   group_entities_by_fuzzy_match rapidfuzz self [revenue, revenue_growth, growth]
     = [(''Revenue'', [revenue, revenue_growth]), (''Growth'', [growth])]"
  by (simp add: group_entities_by_fuzzy_match_def group_by_def fuzzy_cluster_step_def
        revenue_similarities revenue_fields dict_get_def)

lemma revenue_medoid:
  "select_medoid_entity rapidfuzz [revenue, revenue_growth] = Some revenue_growth"
  by (simp add: select_medoid_entity_def similarity_scores_def py_max_def revenue_similarities
        revenue_fields)

lemma revenue_cluster:
  "similarity_threshold self = 80 \<Longrightarrow> canonical_entities self = [] \<Longrightarrow>
   resolution_decisions self = [] \<Longrightarrow>
   resolve_entity_cluster rapidfuzz self [revenue, revenue_growth]
     = Inr (self\<lparr>canonical_entities := [(''e2'', revenue_growth)],
                resolution_decisions := [revenue_decision]\<rparr>)"
  by (simp add: resolve_entity_cluster_def revenue_medoid find_matching_canonical_entity_def
        calculate_cluster_similarity_def calculate_resolution_confidence_def
        mk_EntityResolutionDecision_decision in_unit_def revenue_similarities revenue_fields
        revenue_decision_def)

lemma revenue_by_type:
  "similarity_threshold self = 80 \<Longrightarrow> canonical_entities self = [] \<Longrightarrow>
   resolution_decisions self = [] \<Longrightarrow>
   resolve_entities_by_type rapidfuzz self [revenue, revenue_growth, growth]
     = Inr (self\<lparr>canonical_entities := [(''e2'', revenue_growth), (''e3'', growth)],
                resolution_decisions := [revenue_decision]\<rparr>)"
  by (simp add: resolve_entities_by_type_def revenue_group resolve_cluster_step_def
        revenue_cluster revenue_fields)

lemma revenue_merge:
  "acronym_threshold self = 98 \<Longrightarrow>
   canonical_entities self = [(''e2'', revenue_growth), (''e3'', growth)] \<Longrightarrow>
   merge_acronym_entities rapidfuzz self = Inr self"
  by (simp add: merge_acronym_entities_def merge_acronym_step_def revenue_fields revenue_acronym)

lemma revenue_resolution:
  "run_entity_resolution rapidfuzz [revenue, revenue_growth, growth] default_config
     = Inr ([revenue_growth, growth], [revenue_decision])"
  by (simp add: run_entity_resolution_def resolve_entities_def default_config_def group_by_def
        revenue_fields revenue_by_type revenue_merge)

lemma growth_similarity:
  assumes "name_weight self = 0.6" "description_weight self = 0.4"
  shows "calculate_entity_similarity rapidfuzz self revenue_growth growth = 0.6"
proof -
  have "lower ''Growth'' = ''growth''" "lower ''Revenue Growth'' = ''revenue growth''"
    by (simp_all add: string_defs)
  then have "partial_ratio rapidfuzz (lower ''Revenue Growth'') (lower ''Growth'') = 100"
    by (simp add: rapidfuzz_sel spec_partial_ratio_window)
  then show ?thesis
    by (simp add: assms calculate_entity_similarity_def revenue_fields
          calculate_attribute_similarity_def)
qed

lemma growth_discovery:
  "run_connection_discovery rapidfuzz [revenue_growth, growth] [] default_config
     = Inr [growth_proposal]"
proof -
  have a: "discover_by_similarity rapidfuzz self [revenue_growth, growth] [] = Inr [growth_proposal]"
    if "name_weight self = 0.6" "description_weight self = 0.4" "cd_similarity_threshold self = 0.6"
      "relationship_patterns self = []"
    for self
    by (simp add: that Let_def discover_by_similarity_def get_existing_entity_pairs_def
          entities_connected_def growth_similarity revenue_fields
          suggest_predicate_from_similarity_def mk_ConnectionDiscovery_proposal in_unit_def
          growth_proposal_def)
  have b: "discover_transitive_relationships self [revenue_growth, growth] [] = Inr []" for self
    by (simp add: discover_transitive_relationships_def dict_get_def)
  have c: "discover_by_domain_rules rapidfuzz self [revenue_growth, growth] [] = Inr []" for self
    by (simp add: discover_by_domain_rules_def group_by_def revenue_fields dict_get_def)
  have d: "discover_by_patterns rapidfuzz self [revenue_growth, growth] [] = Inr []"
    if "relationship_patterns self = []" for self
    by (simp add: that discover_by_patterns_def get_existing_entity_pairs_def
          entities_connected_def revenue_fields dict_get_def)
  have e: "sort_by_confidence (deduplicate_discoveries [growth_proposal]) = [growth_proposal]"
    by (simp add: sort_by_confidence_def deduplicate_discoveries_def group_by_def py_max_def)
  have f: "cconfidence growth_proposal = 0.6"
    by (simp add: growth_proposal_def proposal_fields)
  show ?thesis
    by (simp add: run_connection_discovery_def discover_connections_def unique_discoveries_def default_config_def
          extract_relationship_patterns_def a b c d e f extend_with_def)
qed

lemma revenue_first_run:
  "resolve rapidfuzz [revenue, revenue_growth, growth] [] default_config =
     Inr \<lparr>res_entity_decisions = [revenue_decision],
          res_relationship_decisions = [], discovered_connections = [growth_proposal],
          res_canonical_entities = [revenue_growth, growth], consolidated_relationships = [],
          stats = \<lparr>entities_processed = 3, entities_merged = 1, relationships_processed = 0,
                   relationships_consolidated = 0, new_connections_discovered = 1,
                   duplicate_entities_removed = 1\<rparr>\<rparr>"
  by (simp add: resolve_def revenue_resolution no_relationships growth_discovery
        revenue_decision_def decision_fields)

text \<open>The second run, on the first run's canonical entities.\<close>

lemma growth_group:
  "similarity_threshold self = 80 \<Longrightarrow>
   group_entities_by_fuzzy_match rapidfuzz self [revenue_growth, growth]
     = [(''Revenue Growth'', [revenue_growth, growth])]"
  by (simp add: group_entities_by_fuzzy_match_def group_by_def fuzzy_cluster_step_def
        revenue_similarities revenue_fields dict_get_def)

lemma growth_medoid:
  "select_medoid_entity rapidfuzz [revenue_growth, growth] = Some revenue_growth"
  by (simp add: select_medoid_entity_def similarity_scores_def py_max_def revenue_similarities
        revenue_fields)

lemma growth_by_type:
  "similarity_threshold self = 80 \<Longrightarrow> canonical_entities self = [] \<Longrightarrow>
   resolution_decisions self = [] \<Longrightarrow>
   resolve_entities_by_type rapidfuzz self [revenue_growth, growth]
     = Inr (self\<lparr>canonical_entities := [(''e2'', revenue_growth)],
                resolution_decisions := [growth_decision]\<rparr>)"
  by (simp add: resolve_entities_by_type_def growth_group resolve_cluster_step_def
        resolve_entity_cluster_def growth_medoid find_matching_canonical_entity_def
        calculate_cluster_similarity_def calculate_resolution_confidence_def
        mk_EntityResolutionDecision_decision in_unit_def revenue_similarities revenue_fields
        growth_decision_def)

lemma growth_resolution:
  "run_entity_resolution rapidfuzz [revenue_growth, growth] default_config
     = Inr ([revenue_growth], [growth_decision])"
  by (simp add: run_entity_resolution_def resolve_entities_def default_config_def group_by_def
        revenue_fields growth_by_type merge_acronym_entities_def merge_acronym_step_def)

lemma single_discovery:
  "run_connection_discovery rapidfuzz [revenue_growth] [] default_config = Inr []"
  by (simp add: run_connection_discovery_def discover_connections_def unique_discoveries_def default_config_def
        extract_relationship_patterns_def discover_by_similarity_def
        discover_transitive_relationships_def discover_by_domain_rules_def
        discover_by_patterns_def group_by_def dict_get_def extend_with_def
        sort_by_confidence_def deduplicate_discoveries_def revenue_fields)

lemma revenue_second_run:
  "resolve rapidfuzz [revenue_growth, growth] [] default_config =
     Inr \<lparr>res_entity_decisions = [growth_decision],
          res_relationship_decisions = [], discovered_connections = [],
          res_canonical_entities = [revenue_growth], consolidated_relationships = [],
          stats = \<lparr>entities_processed = 2, entities_merged = 1, relationships_processed = 0,
                   relationships_consolidated = 0, new_connections_discovered = 0,
                   duplicate_entities_removed = 1\<rparr>\<rparr>"
  by (simp add: resolve_def growth_resolution no_relationships single_discovery
        growth_decision_def decision_fields)

text \<open>Two KPIs with the same description and unit.\<close>

lemma load_fields:
  "eid load = ''k1''" "etype load = KPI" "ename load = ''Load''"
  "edescription load = Some ''weekly count''" "eattributes load = [(''unit'', ''count'')]"
  "eid lead = ''k2''" "etype lead = KPI" "ename lead = ''Lead''"
  "edescription lead = Some ''weekly count''" "eattributes lead = [(''unit'', ''count'')]"
  by (simp_all add: load_def lead_def entity_fields)

lemma load_similarities:
  "name_similarity rapidfuzz ''Load'' ''Load'' = 100"
  "name_similarity rapidfuzz ''Load'' ''Lead'' = 75"
  "name_similarity rapidfuzz ''Lead'' ''Lead'' = 100"
  "partial_ratio rapidfuzz (lower ''Load'') (lower ''Lead'') = 75"
  by (simp_all add: name_similarity_refl fuzz_defs string_defs)

lemma load_group:
  "similarity_threshold self = 80 \<Longrightarrow>
   group_entities_by_fuzzy_match rapidfuzz self [load, lead]
     = [(''Load'', [load]), (''Lead'', [lead])]"
  by (simp add: group_entities_by_fuzzy_match_def group_by_def fuzzy_cluster_step_def
        load_similarities load_fields dict_get_def)

lemma load_resolution:
  "run_entity_resolution rapidfuzz [load, lead] default_config = Inr ([load, lead], [])"
  by (simp add: run_entity_resolution_def resolve_entities_def default_config_def group_by_def
        load_fields resolve_entities_by_type_def load_group resolve_cluster_step_def
        merge_acronym_entities_def)

lemma partial_ratio_refl: "partial_ratio rapidfuzz s s = 100"
  by (simp add: rapidfuzz_sel spec_partial_ratio_refl)

lemma load_similarity:
  assumes "name_weight self = 0.6" "description_weight self = 0.4"
  shows "calculate_entity_similarity rapidfuzz self load lead = 1.05"
  by (simp add: assms calculate_entity_similarity_def load_fields load_similarities
        calculate_attribute_similarity_def dict_get_def partial_ratio_refl)

lemma load_by_similarity:
  assumes "name_weight self = 0.6" "description_weight self = 0.4"
    "cd_similarity_threshold self = 0.6" "relationship_patterns self = []"
  shows "discover_by_similarity rapidfuzz self [load, lead] [] = Inl ValidationError"
  by (simp add: assms Let_def discover_by_similarity_def get_existing_entity_pairs_def
        entities_connected_def load_similarity load_fields suggest_predicate_from_similarity_def
        mk_ConnectionDiscovery_proposal in_unit_def)

lemma load_discovery:
  "run_connection_discovery rapidfuzz [load, lead] [] default_config = Inl ValidationError"
  by (simp add: run_connection_discovery_def discover_connections_def unique_discoveries_def default_config_def
        extract_relationship_patterns_def load_by_similarity extend_with_def)

lemma load_resolve: "resolve rapidfuzz [load, lead] [] default_config = Inl ValidationError"
  by (simp add: resolve_def load_resolution no_relationships load_discovery)

text \<open>Three entities of different types with one name and one description.\<close>

lemma orders_fields:
  "eid orders_table = ''t2''" "etype orders_table = TABLE" "ename orders_table = ''Orders''"
  "edescription orders_table = Some ''orders''" "eattributes orders_table = []"
  "eid orders_source = ''s1''" "etype orders_source = DATA_SOURCE"
  "ename orders_source = ''Orders''"
  "edescription orders_source = Some ''orders''" "eattributes orders_source = []"
  "eid orders_domain = ''d3''" "etype orders_domain = DOMAIN" "ename orders_domain = ''Orders''"
  "edescription orders_domain = Some ''orders''" "eattributes orders_domain = []"
  by (simp_all add: orders_table_def orders_source_def orders_domain_def entity_fields)

lemma orders_resolution:
  "run_entity_resolution rapidfuzz [orders_table, orders_source, orders_domain] default_config
     = Inr ([orders_table, orders_source, orders_domain], [])"
  by (simp add: run_entity_resolution_def resolve_entities_def default_config_def group_by_def
        orders_fields by_type_single name_similarity_refl merge_acronym_entities_def)

lemma orders_similarity:
  assumes "name_weight self = 0.6" "description_weight self = 0.4"
  shows "calculate_entity_similarity rapidfuzz self orders_table orders_source = 0.8"
    and "calculate_entity_similarity rapidfuzz self orders_table orders_domain = 0.8"
    and "calculate_entity_similarity rapidfuzz self orders_source orders_domain = 0.8"
  by (simp_all add: assms calculate_entity_similarity_def orders_fields rapidfuzz_sel
        spec_partial_ratio_refl calculate_attribute_similarity_def)

lemma orders_by_similarity:
  assumes "name_weight self = 0.6" "description_weight self = 0.4"
    "cd_similarity_threshold self = 0.6" "relationship_patterns self = []"
  shows "discover_by_similarity rapidfuzz self [orders_table, orders_source, orders_domain] []
           = Inr [orders_p1, orders_p2, orders_p3]"
  by (simp add: assms Let_def discover_by_similarity_def get_existing_entity_pairs_def
        entities_connected_def orders_similarity suggest_predicate_from_similarity_def
        orders_fields mk_ConnectionDiscovery_proposal in_unit_def orders_p1_def orders_p2_def
        orders_p3_def)

lemma orders_other_methods:
  "discover_transitive_relationships self [orders_table, orders_source, orders_domain] [] = Inr []"
  "discover_by_domain_rules rapidfuzz self [orders_table, orders_source, orders_domain] [] = Inr []"
  "relationship_patterns self = [] \<Longrightarrow>
   discover_by_patterns rapidfuzz self [orders_table, orders_source, orders_domain] [] = Inr []"
  by (simp_all add: discover_transitive_relationships_def discover_by_domain_rules_def
        discover_by_patterns_def get_existing_entity_pairs_def entities_connected_def
        group_by_def orders_fields dict_get_def)

lemma orders_sorted:
  "sort_by_confidence (deduplicate_discoveries [orders_p1, orders_p2, orders_p3])
     = [orders_p1, orders_p2, orders_p3]"
  by (simp add: sort_by_confidence_def deduplicate_discoveries_def group_by_def py_max_def
        orders_p1_def orders_p2_def orders_p3_def proposal_fields)

lemma orders_discovery:
  "run_connection_discovery rapidfuzz [orders_table, orders_source, orders_domain] []
     default_config = Inr [orders_p1, orders_p2, orders_p3]"
proof -
  have c: "cconfidence orders_p1 = 0.8" "cconfidence orders_p2 = 0.8" "cconfidence orders_p3 = 0.8"
    by (simp_all add: orders_p1_def orders_p2_def orders_p3_def proposal_fields)
  show ?thesis
    by (simp add: run_connection_discovery_def discover_connections_def unique_discoveries_def default_config_def
          extract_relationship_patterns_def orders_by_similarity orders_other_methods
          extend_with_def orders_sorted c)
qed

lemma orders_resolve:
  "resolve rapidfuzz [orders_table, orders_source, orders_domain] [] default_config =
     Inr \<lparr>res_entity_decisions = [], res_relationship_decisions = [],
          discovered_connections = [orders_p1, orders_p2, orders_p3],
          res_canonical_entities = [orders_table, orders_source, orders_domain],
          consolidated_relationships = [],
          stats = \<lparr>entities_processed = 3, entities_merged = 0, relationships_processed = 0,
                   relationships_consolidated = 0, new_connections_discovered = 3,
                   duplicate_entities_removed = 0\<rparr>\<rparr>"
  by (simp add: resolve_def orders_resolution no_relationships orders_discovery)

lemma orders_unique:
  "unique_discoveries rapidfuzz default_discoverer [orders_table, orders_source, orders_domain] []
     = Inr [orders_p1, orders_p2, orders_p3]"
  by (simp add: unique_discoveries_def default_discoverer_def
        extract_relationship_patterns_def orders_by_similarity orders_other_methods
        extend_with_def deduplicate_discoveries_def group_by_def py_max_def
        orders_p1_def orders_p2_def orders_p3_def proposal_fields)

text \<open>The same entities under a negative bound on the number of discoveries.\<close>

lemma negative_cap_resolution:
  "run_entity_resolution rapidfuzz [orders_table, orders_source, orders_domain] negative_cap_config
     = Inr ([orders_table, orders_source, orders_domain], [])"
  by (simp add: run_entity_resolution_def resolve_entities_def default_config_def group_by_def
        negative_cap_config_def
        orders_fields by_type_single name_similarity_refl merge_acronym_entities_def)

lemma negative_cap_discovery:
  "run_connection_discovery rapidfuzz [orders_table, orders_source, orders_domain] []
     negative_cap_config = Inr [orders_p1, orders_p2]"
proof -
  have c: "cconfidence orders_p1 = 0.8" "cconfidence orders_p2 = 0.8" "cconfidence orders_p3 = 0.8"
    by (simp_all add: orders_p1_def orders_p2_def orders_p3_def proposal_fields)
  show ?thesis
    by (simp add: run_connection_discovery_def discover_connections_def unique_discoveries_def
          default_config_def negative_cap_config_def slice_to_def
          extract_relationship_patterns_def orders_by_similarity orders_other_methods
          extend_with_def orders_sorted c)
qed

lemma negative_cap_resolve:
  "map_sum id discovered_connections
     (resolve rapidfuzz [orders_table, orders_source, orders_domain] [] negative_cap_config)
     = Inr [orders_p1, orders_p2]"
  by (simp add: resolve_def negative_cap_resolution no_relationships negative_cap_discovery)

text \<open>A duplicate id and a dangling endpoint.\<close>

lemma dup_fields:
  "eid churn_kpi = ''e1''" "etype churn_kpi = KPI" "ename churn_kpi = ''Churn''"
  "econfidence churn_kpi = 0.9"
  "eid orders_dup = ''e1''" "etype orders_dup = TABLE" "ename orders_dup = ''Orders''"
  "econfidence orders_dup = 0.9"
  by (simp_all add: churn_kpi_def orders_dup_def entity_fields)

lemma dangling_fields:
  "rid dangling = ''r1''" "subject_id dangling = ''e1''" "object_id dangling = ''zz''"
  "predicate dangling = DEPENDS_ON" "rconfidence dangling = 0.8"
  by (simp_all add: dangling_def)

lemma dup_resolution:
  "run_entity_resolution rapidfuzz [churn_kpi, orders_dup] default_config
     = Inr ([orders_dup], [])"
  by (simp add: run_entity_resolution_def resolve_entities_def default_config_def group_by_def
        dup_fields by_type_single name_similarity_refl merge_acronym_entities_def)

lemma dangling_resolution:
  "run_relationship_resolution [dangling] [] default_config = Inr ([dangling], [])"
  by (simp add: run_relationship_resolution_def resolve_relationships_def
        build_entity_id_mapping_def remove_exact_duplicates_def group_by_def
        remove_exact_duplicates_step_def consolidate_similar_relationships_def
        consolidate_similar_step_def)

lemma dup_discovery:
  "run_connection_discovery rapidfuzz [orders_dup] [dangling] default_config = Inr []"
  by (simp add: run_connection_discovery_def discover_connections_def unique_discoveries_def default_config_def
        extract_relationship_patterns_def entity_map_of_def discover_by_similarity_def
        discover_transitive_relationships_def discover_by_domain_rules_def
        discover_by_patterns_def group_by_def dict_get_def extend_with_def
        sort_by_confidence_def deduplicate_discoveries_def dup_fields dangling_fields)

lemma dup_resolve:
  "resolve rapidfuzz [churn_kpi, orders_dup] [dangling] default_config =
     Inr \<lparr>res_entity_decisions = [], res_relationship_decisions = [],
          discovered_connections = [],
          res_canonical_entities = [orders_dup], consolidated_relationships = [dangling],
          stats = \<lparr>entities_processed = 2, entities_merged = 0, relationships_processed = 1,
                   relationships_consolidated = 0, new_connections_discovered = 0,
                   duplicate_entities_removed = 0\<rparr>\<rparr>"
  by (simp add: resolve_def dup_resolution dangling_resolution dup_discovery)

text \<open>Small inputs of single functions.\<close>

lemma churn_fields:
  "eid churn_a = ''e1''" "eid churn_b = ''e2''" "ename churn_a = ''Churn''"
  "ename churn_b = ''Churn''" "econfidence churn_a = 0.9" "econfidence churn_b = 0.9"
  by (simp_all add: churn_a_def churn_b_def entity_fields)

lemma churn_medoids:
  "select_medoid_entity rapidfuzz [churn_b, churn_a] = Some churn_b"
  "select_medoid_entity rapidfuzz [churn_a, churn_b] = Some churn_a"
  by (simp_all add: select_medoid_entity_def similarity_scores_def py_max_def
        name_similarity_refl churn_fields)

lemma strict_group:
  "group_entities_by_fuzzy_match rapidfuzz strict_resolver [revenue, revenue_growth]
     = [(''Revenue'', [revenue, revenue_growth])]"
  by (simp add: group_entities_by_fuzzy_match_def group_by_def fuzzy_cluster_step_def
        revenue_similarities revenue_fields dict_get_def strict_resolver_def)

lemma strict_three_group:
  "group_entities_by_fuzzy_match rapidfuzz strict_resolver [revenue, growth, revenue_growth]
     = [(''Revenue'', [revenue, revenue_growth]), (''Growth'', [growth])]"
  by (simp add: group_entities_by_fuzzy_match_def group_by_def fuzzy_cluster_step_def
        revenue_similarities revenue_fields dict_get_def strict_resolver_def)

lemma strict_ut_group:
  "group_entities_by_fuzzy_match rapidfuzz strict_resolver [ut_upper, ut_lower]
     = [(''UT'', [ut_upper, ut_lower])]"
  by (simp add: group_entities_by_fuzzy_match_def group_by_def fuzzy_cluster_step_def
        ut_similarities ut_fields dict_get_def strict_resolver_def)

lemma scenario3_mapping: "build_entity_id_mapping [scenario3_decision] = [(''e2'', ''e1'')]"
  by (simp add: build_entity_id_mapping_def scenario3_decision_def decision_fields)

lemma scenario3_evaluation:
  "run_relationship_resolution [scenario3_r1, scenario3_r2] [scenario3_decision] default_config
     = Inr ([scenario3_r1\<lparr>subject_id := ''e1''\<rparr>], [scenario3_kept])"
  by (simp add: run_relationship_resolution_def scenario3_mapping resolve_relationships_def
        scenario3_r1_def scenario3_r2_def update_relationship_entity_ids_def dict_get_def
        remove_exact_duplicates_def group_by_def remove_exact_duplicates_step_def
        select_best_relationship_def py_max_def best_key_def
        mk_RelationshipResolutionDecision_def in_unit_def consolidate_similar_relationships_def
        pair_key_def consolidate_similar_step_def scenario3_kept_def)

section \<open>The claims\<close>

text \<open>
  C1 (the id-remap table is total, idempotent on canonical ids and closed, also when the target
  of a fuzzy-match decision is itself retired by the acronym pass).  The code does not keep the
  table closed.  On the input UT (c1), ut (c2), Up Time (m1), all KPIs, the fuzzy pass retires
  c2 into c1 and the acronym pass then retires c1 into m1: the only canonical entity is m1, yet
  the table built from the decisions still sends c2 to c1, which is no canonical id.
\<close>

theorem remap_target_retired_by_acronym_pass:
  "run_entity_resolution rapidfuzz [ut_upper, ut_lower, up_time] default_config
     = Inr ([up_time], [ut_fuzzy_decision, up_time_decision])
   \<and> build_entity_id_mapping [ut_fuzzy_decision, up_time_decision]
     = [(''c2'', ''c1''), (''c1'', ''m1'')]
   \<and> dict_get (build_entity_id_mapping [ut_fuzzy_decision, up_time_decision]) ''c2'' ''c2''
       \<notin> set (map eid [up_time])"
  by (simp add: ut_resolution ut_mapping dict_get_def ut_fields)

theorem remap_target_retired_by_acronym_pass_witness:
  "\<exists>canonical decisions.
     run_entity_resolution rapidfuzz [ut_upper, ut_lower, up_time] default_config
       = Inr (canonical, decisions)
     \<and> dict_get (build_entity_id_mapping decisions) ''c2'' ''c2'' \<notin> set (map eid canonical)"
  using remap_target_retired_by_acronym_pass by blast

text \<open>
  C2 (a second run of resolve on the first run's canonical entities and consolidated
  relationships returns the same canonical entities).  The code breaks this on the input
  Revenue (e1), Revenue Growth (e2), Growth (e3): the first run clusters e1 with e2, commits the
  singleton e3 without testing it against the canonical e2, and returns e2 and e3; the second
  run clusters e2 with e3 and returns e2 alone.
\<close>

theorem second_run_merges_survivors:
  "map_sum id (\<lambda>r. (res_canonical_entities r, consolidated_relationships r))
     (resolve rapidfuzz [revenue, revenue_growth, growth] [] default_config)
     = Inr ([revenue_growth, growth], [])
   \<and> map_sum id (\<lambda>r. (res_canonical_entities r, consolidated_relationships r))
     (resolve rapidfuzz [revenue_growth, growth] [] default_config)
     = Inr ([revenue_growth], [])"
  by (simp add: revenue_first_run revenue_second_run)

theorem second_run_merges_survivors_witness:
  "map_sum id (\<lambda>r. length (res_canonical_entities r))
     (resolve rapidfuzz [revenue, revenue_growth, growth] [] default_config) = Inr 2
   \<and> map_sum id (\<lambda>r. length (res_canonical_entities r))
     (resolve rapidfuzz [revenue_growth, growth] [] default_config) = Inr 1"
proof -
  have "map_sum id (\<lambda>r. length (res_canonical_entities r)) x
          = map_sum id (\<lambda>p. length (fst p))
              (map_sum id (\<lambda>r. (res_canonical_entities r, consolidated_relationships r)) x)"
    for x :: "error + ResolutionResult"
    by (cases x) simp_all
  then show ?thesis using second_run_merges_survivors by simp
qed

text \<open>
  C3 (scenario 3: one edge e1-dependsOn-m1 with confidence 0.8 and context "A | B", one
  consolidate decision).  Amended: after the rewrite both relationships have the same subject,
  predicate and object, so the exact-duplicate step, which runs first, keeps the better one
  (r1) unchanged and records a keep-canonical decision; the result is one edge e1-dependsOn-m1
  with confidence 0.8 and context "A", and one decision whose action is keep_canonical.
\<close>

theorem scenario3_keeps_best_duplicate:
  "run_relationship_resolution [scenario3_r1, scenario3_r2] [scenario3_decision] default_config
     = Inr ([scenario3_r1\<lparr>subject_id := ''e1''\<rparr>], [scenario3_kept])"
  by (rule scenario3_evaluation)

theorem scenario3_keeps_best_duplicate_witness:
  "map_sum id (\<lambda>res. (map subject_id (fst res), map rconfidence (fst res),
                       map rcontext (fst res), map action (snd res)))
     (run_relationship_resolution [scenario3_r1, scenario3_r2] [scenario3_decision]
        default_config)
     = Inr ([''e1''], [0.8], [Some ''A''], [KEEP_CANONICAL])"
  using scenario3_keeps_best_duplicate by (simp add: scenario3_r1_def scenario3_kept_def)

theorem scenario3_counterexample:
  "map_sum id (\<lambda>res. (map rcontext (fst res), map action (snd res)))
     (run_relationship_resolution [scenario3_r1, scenario3_r2] [scenario3_decision]
        default_config)
     \<noteq> Inr ([Some ''A | B''], [CONSOLIDATE_RELATIONSHIPS])"
  unfolding scenario3_evaluation by (simp add: scenario3_r1_def scenario3_kept_def)

text \<open>
  C4 (discovery completes without error and every confidence lies in [0,1]; the similarity
  score of method A never exceeds 1).  The code breaks this: for the KPIs Load and Lead, with
  the same description and the same unit attribute, the score is
  0.75 * 0.6 + 1 * 0.4 + 1 * 0.2 = 1.05, the proposal's constructor rejects it, and the run
  fails with a validation error.
\<close>

theorem similarity_confidence_above_one_fails:
  "calculate_entity_similarity rapidfuzz default_discoverer load lead = 1.05
   \<and> run_connection_discovery rapidfuzz [load, lead] [] default_config = Inl ValidationError
   \<and> resolve rapidfuzz [load, lead] [] default_config = Inl ValidationError"
  by (simp add: load_similarity load_discovery load_resolve default_discoverer_def)

theorem similarity_confidence_above_one_fails_witness:
  "\<not> in_unit (calculate_entity_similarity rapidfuzz default_discoverer load lead)
   \<and> isl (resolve rapidfuzz [load, lead] [] default_config)"
  using similarity_confidence_above_one_fails by (simp add: in_unit_def)

text \<open>
  C5 (the final discovery list is sorted by confidence descending, then subject id, object id
  and predicate, and is no longer than max_discoveries_per_run).  Amended: whenever the pipeline
  returns a result, the final list is sorted by descending confidence only; proposals of equal
  confidence stand in the order that the deduplicated list of proposals has before it is sorted
  (the sort is stable, and subject id, object id and predicate are not compared); and the list is
  no longer than max_discoveries_per_run when that bound is not negative.  Under the bound -1 the
  slice drops the last of three proposals, and the list of two is longer than the bound.
\<close>

theorem final_discoveries_sorted_by_confidence:
  assumes "resolve fz entities relationships cfg = Inr res"
  shows "by_descending_confidence (discovered_connections res)
         \<and> (0 \<le> max_discoveries_per_run cfg
              \<longrightarrow> int (length (discovered_connections res)) \<le> max_discoveries_per_run cfg)
         \<and> (\<exists>unique. unique_discoveries fz
                \<lparr>cd_similarity_threshold = connection_similarity_threshold cfg,
                 description_weight = 0.4, name_weight = 0.6,
                 enable_transitive_discovery = cfg_enable_transitive_discovery cfg,
                 enable_domain_rules = cfg_enable_domain_rules cfg,
                 relationship_patterns = []\<rparr>
                (res_canonical_entities res) (consolidated_relationships res) = Inr unique
              \<and> equal_confidence_in_order (discovered_connections res) unique)"
  using resolve_stages(3)[OF assms] run_connection_discovery_descending
    run_connection_discovery_length run_connection_discovery_ties
  by blast

theorem final_discoveries_sorted_by_confidence_witness:
  "resolve rapidfuzz [orders_table, orders_source, orders_domain] [] default_config
     = Inr \<lparr>res_entity_decisions = [], res_relationship_decisions = [],
            discovered_connections = [orders_p1, orders_p2, orders_p3],
            res_canonical_entities = [orders_table, orders_source, orders_domain],
            consolidated_relationships = [],
            stats = \<lparr>entities_processed = 3, entities_merged = 0, relationships_processed = 0,
                     relationships_consolidated = 0, new_connections_discovered = 3,
                     duplicate_entities_removed = 0\<rparr>\<rparr>
   \<and> unique_discoveries rapidfuzz default_discoverer [orders_table, orders_source, orders_domain] []
       = Inr [orders_p1, orders_p2, orders_p3]
   \<and> by_descending_confidence [orders_p1, orders_p2, orders_p3]
   \<and> int (length [orders_p1, orders_p2, orders_p3]) \<le> max_discoveries_per_run default_config
   \<and> equal_confidence_in_order [orders_p1, orders_p2, orders_p3] [orders_p1, orders_p2, orders_p3]"
proof -
  have d: "\<lparr>cd_similarity_threshold = connection_similarity_threshold default_config,
            description_weight = 0.4, name_weight = 0.6,
            enable_transitive_discovery = cfg_enable_transitive_discovery default_config,
            enable_domain_rules = cfg_enable_domain_rules default_config,
            relationship_patterns = []\<rparr> = default_discoverer"
    by (simp add: default_discoverer_def default_config_def)
  show ?thesis
    using final_discoveries_sorted_by_confidence[OF orders_resolve] orders_resolve orders_unique
    unfolding d
    by (simp add: default_config_def)
qed

theorem equal_confidence_order_counterexample:
  "map_sum id discovered_connections
     (resolve rapidfuzz [orders_table, orders_source, orders_domain] [] default_config)
     = Inr [orders_p1, orders_p2, orders_p3]
   \<and> \<not> sorted (map claimed_discovery_key [orders_p1, orders_p2, orders_p3])
   \<and> map_sum id discovered_connections
       (resolve rapidfuzz [orders_table, orders_source, orders_domain] [] negative_cap_config)
       = Inr [orders_p1, orders_p2]
   \<and> \<not> int (length [orders_p1, orders_p2]) \<le> max_discoveries_per_run negative_cap_config"
proof -
  have "max_discoveries_per_run negative_cap_config = - 1"
    by (simp add: negative_cap_config_def)
  then show ?thesis
    by (simp add: orders_resolve negative_cap_resolve claimed_discovery_key_def orders_p1_def
          orders_p2_def orders_p3_def proposal_fields)
qed

text \<open>
  C6 (stats.entities_merged equals entities_processed minus the number of canonical entities,
  also when one single-word entity matches the acronym of several multi-word entities).  The
  code breaks this: with Up Time, Unit Test and UT, both full forms record a decision that
  retires UT, so entities_merged is 2 while 3 entities were processed and 2 are canonical.
\<close>

theorem acronym_double_match_counts_twice:
  "map_sum id (\<lambda>r. (entities_merged (stats r), entities_processed (stats r),
                     int (length (res_canonical_entities r)), res_entity_decisions r))
     (resolve rapidfuzz [up_time, unit_test, ut_upper] [] default_config)
     = Inr (2, 3, 2, [up_time_decision, unit_test_decision])"
  by (simp add: ut_double_resolve)

theorem acronym_double_match_counts_twice_witness:
  "map_sum id (\<lambda>r. entities_merged (stats r)
                     = entities_processed (stats r) - int (length (res_canonical_entities r)))
     (resolve rapidfuzz [up_time, unit_test, ut_upper] [] default_config) = Inr False"
proof -
  have "map_sum id (\<lambda>r. entities_merged (stats r)
                     = entities_processed (stats r) - int (length (res_canonical_entities r))) x
          = map_sum id (\<lambda>q. fst q = fst (snd q) - fst (snd (snd q)))
              (map_sum id (\<lambda>r. (entities_merged (stats r), entities_processed (stats r),
                     int (length (res_canonical_entities r)), res_entity_decisions r)) x)"
    for x :: "error + ResolutionResult"
    by (cases x) simp_all
  then show ?thesis using acronym_double_match_counts_twice by simp
qed

text \<open>
  C7 (an input with a duplicate entity id, a dangling relationship endpoint, an unknown type or
  predicate or an out-of-range confidence fails with a validation failure; every other input
  yields a complete result).  Amended: resolve checks neither the uniqueness of entity ids nor
  the endpoints of relationships.  For every list of entities and relationships whose
  confidences lie in [0,1] (the record types admit no other, nor an unknown type or predicate),
  entity resolution and relationship resolution return their results, whether or not ids
  repeat or endpoints are missing.
\<close>

theorem resolution_returns_without_id_validation:
  assumes "fuzz_in_range fz"
    and "\<forall>e \<in> set entities. in_unit (econfidence e)"
    and "confidences_in_unit relationships"
  shows "\<exists>canonical entity_decisions rels rel_ds.
           run_entity_resolution fz entities cfg = Inr (canonical, entity_decisions)
           \<and> run_relationship_resolution relationships entity_decisions cfg = Inr (rels, rel_ds)"
proof -
  obtain er where er: "run_entity_resolution fz entities cfg = Inr er"
    using resolve_entities_total[OF assms(1,2)] unfolding run_entity_resolution_def by blast
  obtain rr where rr: "run_relationship_resolution relationships (snd er) cfg = Inr rr"
    using resolve_relationships_total[OF assms(3)] unfolding run_relationship_resolution_def
    by blast
  show ?thesis using er rr by (cases er; cases rr) auto
qed

theorem resolution_returns_without_id_validation_witness:
  "fuzz_in_range rapidfuzz
   \<and> eid churn_kpi = eid orders_dup
   \<and> object_id dangling \<notin> set (map eid [churn_kpi, orders_dup])
   \<and> (\<exists>canonical entity_decisions rels rel_ds.
         run_entity_resolution rapidfuzz [churn_kpi, orders_dup] default_config
           = Inr (canonical, entity_decisions)
         \<and> run_relationship_resolution [dangling] entity_decisions default_config
           = Inr (rels, rel_ds))"
proof -
  have "\<forall>e \<in> set [churn_kpi, orders_dup]. in_unit (econfidence e)"
    by (simp add: dup_fields in_unit_def)
  moreover have "confidences_in_unit [dangling]"
    by (simp add: confidences_in_unit_def dangling_fields in_unit_def)
  ultimately show ?thesis
    using resolution_returns_without_id_validation[OF rapidfuzz_in_range, of
        "[churn_kpi, orders_dup]" "[dangling]" default_config] rapidfuzz_in_range
    by (simp add: dup_fields dangling_fields)
qed

theorem duplicate_id_accepted_counterexample:
  "eid churn_kpi = eid orders_dup
   \<and> object_id dangling \<notin> set (map eid [churn_kpi, orders_dup])
   \<and> map_sum id (\<lambda>r. (res_canonical_entities r, consolidated_relationships r))
        (resolve rapidfuzz [churn_kpi, orders_dup] [dangling] default_config)
       = Inr ([orders_dup], [dangling])"
  by (simp add: dup_resolve dup_fields dangling_fields)

text \<open>
  C8 (the elected member of a cluster of more than one entity maximizes the summed similarity;
  among members within 10 points of the maximum the most confident wins; remaining ties are
  broken by lexicographic order of the entity id).  Amended: among the members whose summed
  similarity is less than 10 points from the maximum, the one of greatest confidence is
  elected, and among several of these the one that comes first in the cluster; entity ids are
  not compared.
\<close>

theorem select_medoid_entity_tie_break:
  assumes "2 \<le> length es"
  shows "\<exists>k < length es. select_medoid_entity fz es = Some (es ! k)
     \<and> within_ten fz es k
     \<and> (\<forall>j < length es. within_ten fz es j \<longrightarrow> econfidence (es ! j) \<le> econfidence (es ! k))
     \<and> (\<forall>j < k. within_ten fz es j \<longrightarrow> econfidence (es ! j) < econfidence (es ! k))"
proof -
  define n where "n = length es"
  define scores where "scores = similarity_scores fz es"
  define max_idx where "max_idx = py_max (\<lambda>idx. scores ! idx) 0 [1 ..< n]"
  define idxs where "idxs = filter (\<lambda>i. \<bar>scores ! i - scores ! max_idx\<bar> < 10) [0 ..< n]"
  have n2: "2 \<le> n" using assms by (simp add: n_def)
  have len: "length scores = n" by (simp add: scores_def n_def length_similarity_scores)
  have upt: "0 # [1 ..< n] = [0 ..< n]" using n2 by (simp add: upt_conv_Cons)
  \<comment> \<open>the index of the greatest total similarity\<close>
  from py_max_list[of "[0 ..< n]" "\<lambda>idx. scores ! idx"] n2
  obtain p where p: "p < n" "max_idx = [0 ..< n] ! p"
      "\<forall>q < n. scores ! ([0 ..< n] ! q) \<le> scores ! ([0 ..< n] ! p)"
    unfolding max_idx_def by (auto simp: upt[symmetric] simp del: upt_Suc)
  have mi: "max_idx < n" "\<forall>q < n. scores ! q \<le> scores ! max_idx"
    using p by auto
  have "Max (set scores) = scores ! max_idx"
  proof (rule Max_eqI)
    show "finite (set scores)" by simp
    show "y \<le> scores ! max_idx" if "y \<in> set scores" for y
      using that mi len by (auto simp: in_set_conv_nth)
    show "scores ! max_idx \<in> set scores" using mi len by simp
  qed
  then have wt: "within_ten fz es i = (\<bar>scores ! i - scores ! max_idx\<bar> < 10)" for i
    by (simp add: within_ten_def scores_def)
  have idxs_set: "set idxs = {i. i < n \<and> within_ten fz es i}"
    by (auto simp: idxs_def wt)
  have idxs_sorted: "sorted_wrt (<) idxs"
    unfolding idxs_def by (rule sorted_wrt_filter) (simp add: sorted_wrt_upt del: upt_Suc)
  have "max_idx \<in> set idxs" using mi by (simp add: idxs_def)
  then have ne: "idxs \<noteq> []" by auto
  \<comment> \<open>in both branches the result is the first candidate of greatest confidence\<close>
  have res: "select_medoid_entity fz es
      = Some (es ! py_max (\<lambda>i. econfidence (es ! i)) (hd idxs) (tl idxs))"
  proof (cases idxs)
    case Nil then show ?thesis using ne by simp
  next
    case (Cons i rest)
    show ?thesis
    proof (cases rest)
      case Nil
      then have "idxs = [max_idx]" using Cons \<open>max_idx \<in> set idxs\<close> by simp
      then show ?thesis
        using select_medoid_entity_unfold[OF assms, of fz]
        by (simp add: Let_def py_max_def n_def scores_def max_idx_def idxs_def)
    next
      case (Cons i' rest')
      have "py_max econfidence (es ! i) (map (\<lambda>i. es ! i) (i' # rest'))
              = es ! py_max (\<lambda>i. econfidence (es ! i)) i (i' # rest')"
        by (rule py_max_map)
      then show ?thesis
        using select_medoid_entity_unfold[OF assms, of fz] \<open>idxs = i # rest\<close> Cons
        by (simp add: Let_def n_def scores_def max_idx_def idxs_def)
    qed
  qed
  from py_max_list[OF ne, of "\<lambda>i. econfidence (es ! i)"]
  obtain q where q: "q < length idxs"
      "py_max (\<lambda>i. econfidence (es ! i)) (hd idxs) (tl idxs) = idxs ! q"
      "\<forall>r < length idxs. econfidence (es ! (idxs ! r)) \<le> econfidence (es ! (idxs ! q))"
      "\<forall>r < q. econfidence (es ! (idxs ! r)) < econfidence (es ! (idxs ! q))"
    by blast
  define k where "k = idxs ! q"
  have kin: "k \<in> set idxs" using q by (simp add: k_def)
  then have k1: "k < n" "within_ten fz es k" using idxs_set by auto
  have k2: "econfidence (es ! j) \<le> econfidence (es ! k)" if "j < n" "within_ten fz es j" for j
  proof -
    have "j \<in> set idxs" using that idxs_set by simp
    then obtain r where "r < length idxs" "idxs ! r = j" by (auto simp: in_set_conv_nth)
    then show ?thesis using q by (auto simp: k_def)
  qed
  have k3: "econfidence (es ! j) < econfidence (es ! k)" if "j < k" "within_ten fz es j" for j
  proof -
    have "j < n" using that k1 by simp
    then have "j \<in> set idxs" using that idxs_set by simp
    then obtain r where r: "r < length idxs" "idxs ! r = j" by (auto simp: in_set_conv_nth)
    have "r < q"
    proof (rule ccontr)
      assume "\<not> r < q"
      then have "q \<le> r" by simp
      then have "idxs ! q \<le> idxs ! r"
        using idxs_sorted r q
        by (metis le_neq_implies_less less_imp_le order_refl sorted_wrt_nth_less)
      then show False using that r by (simp add: k_def)
    qed
    then show ?thesis using q r by (auto simp: k_def)
  qed
  show ?thesis
    using res q k1 k2 k3 by (intro exI[of _ k]) (simp add: k_def n_def)
qed

theorem select_medoid_entity_tie_break_witness:
  "2 \<le> length [churn_b, churn_a]
   \<and> (\<exists>k < length [churn_b, churn_a].
         select_medoid_entity rapidfuzz [churn_b, churn_a] = Some ([churn_b, churn_a] ! k)
         \<and> within_ten rapidfuzz [churn_b, churn_a] k)"
  using select_medoid_entity_tie_break[of "[churn_b, churn_a]" rapidfuzz] by auto

theorem medoid_tie_counterexample:
  "select_medoid_entity rapidfuzz [churn_b, churn_a] = Some churn_b
   \<and> select_medoid_entity rapidfuzz [churn_a, churn_b] = Some churn_a
   \<and> eid churn_a = ''e1'' \<and> eid churn_b = ''e2''
   \<and> econfidence churn_a = econfidence churn_b
   \<and> similarity_scores rapidfuzz [churn_b, churn_a] = [100, 100]"
  by (simp add: churn_medoids churn_fields similarity_scores_def name_similarity_refl)

text \<open>
  C9 (with a similarity threshold of 100 two entities of a type share a cluster if and only if
  their normalized names are equal; a strict substring does not cluster).  Amended: with a
  threshold of 100, an entity lies in a cluster exactly when that cluster is the first, in the
  order in which the clusters were started, whose name has a partial ratio of 100 with the
  entity's name (both normalized); so two entities of a type share a cluster if and only if that
  first cluster is the same for both.  Entities with equal normalized names always share a
  cluster.  Equal names are not necessary: of Revenue and Revenue Growth alone the two share a
  cluster, their partial ratio being 100; and whether a name clusters with a longer name that
  contains it depends on the order of the input: of Revenue, Growth and Revenue Growth, Revenue
  Growth joins the cluster of Revenue, and Growth stays alone.
\<close>

theorem clusters_at_100_by_first_match:
  assumes "similarity_threshold self = 100"
    and "\<forall>a b. partial_ratio fz a b \<le> 100"
    and "\<forall>s. partial_ratio fz s s = 100"
    and "e1 \<in> set es" and "e2 \<in> set es"
  shows "(\<forall>cl \<in> set (group_entities_by_fuzzy_match fz self es).
            (e1 \<in> set (snd cl))
              = (first_full_match fz (group_entities_by_fuzzy_match fz self es) e1 = Some (fst cl)))
       \<and> ((\<exists>cl \<in> set (group_entities_by_fuzzy_match fz self es).
              e1 \<in> set (snd cl) \<and> e2 \<in> set (snd cl))
            = (first_full_match fz (group_entities_by_fuzzy_match fz self es) e1
                 = first_full_match fz (group_entities_by_fuzzy_match fz self es) e2))
       \<and> (clean_entity_name (ename e1) = clean_entity_name (ename e2)
            \<longrightarrow> (\<exists>cl \<in> set (group_entities_by_fuzzy_match fz self es).
                   e1 \<in> set (snd cl) \<and> e2 \<in> set (snd cl)))"
proof -
  define cs where "cs = group_entities_by_fuzzy_match fz self es"
  have refl: "\<forall>s. similarity_threshold self \<le> partial_ratio fz s s"
    using assms(1,3) by simp
  have mem: "(e \<in> set (snd cl)) = (first_full_match fz cs e = Some (fst cl))"
    if "e \<in> set es" "cl \<in> set cs" for e cl
    using cluster_members_first_match[OF refl that(1), of cl] that(2)
    by (simp add: cs_def first_match_at_100[OF assms(1,2)])
  have ex: "\<exists>cl \<in> set cs. e \<in> set (snd cl)" if "e \<in> set es" for e
    using equal_clean_names_cluster_together[OF refl that that] by (auto simp: cs_def)
  have pair: "(\<exists>cl \<in> set cs. e1 \<in> set (snd cl) \<and> e2 \<in> set (snd cl))
                = (first_full_match fz cs e1 = first_full_match fz cs e2)"
  proof
    assume "\<exists>cl \<in> set cs. e1 \<in> set (snd cl) \<and> e2 \<in> set (snd cl)"
    then show "first_full_match fz cs e1 = first_full_match fz cs e2"
      using mem assms(4,5) by auto
  next
    assume eq: "first_full_match fz cs e1 = first_full_match fz cs e2"
    obtain cl where cl: "cl \<in> set cs" "e1 \<in> set (snd cl)" using ex[OF assms(4)] by blast
    then have "first_full_match fz cs e2 = Some (fst cl)" using mem[OF assms(4) cl(1)] eq by simp
    then have "e2 \<in> set (snd cl)" using mem[OF assms(5) cl(1)] by simp
    then show "\<exists>cl \<in> set cs. e1 \<in> set (snd cl) \<and> e2 \<in> set (snd cl)" using cl by blast
  qed
  have same: "clean_entity_name (ename e1) = clean_entity_name (ename e2)
        \<longrightarrow> (\<exists>cl \<in> set cs. e1 \<in> set (snd cl) \<and> e2 \<in> set (snd cl))"
    using equal_clean_names_cluster_together[OF refl assms(4,5)] by (simp add: cs_def)
  show ?thesis using mem[OF assms(4)] pair same unfolding cs_def by blast
qed

theorem clusters_at_100_by_first_match_witness:
  "similarity_threshold strict_resolver = 100
   \<and> group_entities_by_fuzzy_match rapidfuzz strict_resolver [revenue, growth, revenue_growth]
       = [(''Revenue'', [revenue, revenue_growth]), (''Growth'', [growth])]
   \<and> first_full_match rapidfuzz
         (group_entities_by_fuzzy_match rapidfuzz strict_resolver [revenue, growth, revenue_growth])
         growth = Some ''Growth''
   \<and> first_full_match rapidfuzz
         (group_entities_by_fuzzy_match rapidfuzz strict_resolver [revenue, growth, revenue_growth])
         revenue_growth = Some ''Revenue''
   \<and> \<not> (\<exists>cl \<in> set (group_entities_by_fuzzy_match rapidfuzz strict_resolver
                        [revenue, growth, revenue_growth]).
           growth \<in> set (snd cl) \<and> revenue_growth \<in> set (snd cl))"
proof -
  have a: "similarity_threshold strict_resolver = 100" by (simp add: strict_resolver_def)
  have b: "\<forall>a b. partial_ratio rapidfuzz a b \<le> 100"
    using rapidfuzz_in_range by (simp add: fuzz_in_range_def)
  have c: "\<forall>s. partial_ratio rapidfuzz s s = 100" by (simp add: partial_ratio_refl)
  have g: "first_full_match rapidfuzz
         (group_entities_by_fuzzy_match rapidfuzz strict_resolver [revenue, growth, revenue_growth])
         growth = Some ''Growth''"
    by (simp add: strict_three_group first_full_match_def revenue_fields revenue_similarities)
  have r: "first_full_match rapidfuzz
         (group_entities_by_fuzzy_match rapidfuzz strict_resolver [revenue, growth, revenue_growth])
         revenue_growth = Some ''Revenue''"
    by (simp add: strict_three_group first_full_match_def revenue_fields revenue_similarities)
  have "\<not> (\<exists>cl \<in> set (group_entities_by_fuzzy_match rapidfuzz strict_resolver
                        [revenue, growth, revenue_growth]).
           growth \<in> set (snd cl) \<and> revenue_growth \<in> set (snd cl))"
    using clusters_at_100_by_first_match[OF a b c, of growth "[revenue, growth, revenue_growth]"
            revenue_growth] g r
    by simp
  then show ?thesis using a g r strict_three_group by simp
qed

theorem substring_clusters_counterexample:
  "similarity_threshold strict_resolver = 100
   \<and> etype revenue = etype revenue_growth
   \<and> clean_entity_name (ename revenue) \<noteq> clean_entity_name (ename revenue_growth)
   \<and> group_entities_by_fuzzy_match rapidfuzz strict_resolver [revenue, revenue_growth]
       = [(''Revenue'', [revenue, revenue_growth])]"
proof -
  have "similarity_threshold strict_resolver = 100" by (simp add: strict_resolver_def)
  then show ?thesis by (simp add: strict_group revenue_fields revenue_cleaned)
qed

text \<open>
  C10: for every relationship list and every entity-id mapping, the endpoint rewrite keeps the
  id, predicate, confidence, context and source chunk id of every relationship, position by
  position, and returns a list of the same length; only the two endpoint fields may differ.
\<close>

theorem update_relationship_entity_ids_frame:
  "length (update_relationship_entity_ids rs m) = length rs
   \<and> map rid (update_relationship_entity_ids rs m) = map rid rs
   \<and> map predicate (update_relationship_entity_ids rs m) = map predicate rs
   \<and> map rconfidence (update_relationship_entity_ids rs m) = map rconfidence rs
   \<and> map rcontext (update_relationship_entity_ids rs m) = map rcontext rs
   \<and> map rsource_chunk_id (update_relationship_entity_ids rs m) = map rsource_chunk_id rs"
  by (simp add: update_relationship_entity_ids_def Let_def)

theorem update_relationship_entity_ids_frame_witness:
  "map subject_id (update_relationship_entity_ids [scenario3_r1, scenario3_r2] [(''e2'', ''e1'')])
     = [''e1'', ''e1'']
   \<and> map rid (update_relationship_entity_ids [scenario3_r1, scenario3_r2] [(''e2'', ''e1'')])
     = [''r1'', ''r2'']
   \<and> map rcontext (update_relationship_entity_ids [scenario3_r1, scenario3_r2] [(''e2'', ''e1'')])
     = [Some ''A'', Some ''B'']"
  using update_relationship_entity_ids_frame[of "[scenario3_r1, scenario3_r2]" "[(''e2'', ''e1'')]"]
  by (simp add: scenario3_r1_def scenario3_r2_def update_relationship_entity_ids_def dict_get_def)

end
